theory Spec2Isabelle
  imports Main "HOL-Library.AList"
begin

section \<open>Python values\<close>

text \<open>
  A Python \<open>str\<close> is a sequence of Unicode code points; the catalog and the replies of
  \<^verbatim>\<open>main.py\<close> are Cyrillic, so a text is a list of code points. The keys of the
  dictionaries are ASCII literals of the source and stay Isabelle strings.
\<close>

type_synonym pystr = "nat list"

definition ascii :: "string \<Rightarrow> pystr" where
  "ascii s = map of_char s"

datatype pyval = PInt int | PStr pystr

type_synonym dict = "(string \<times> pyval) list"

datatype error =
  FileNotFoundError | IsADirectoryError | PermissionError | UnicodeDecodeError
  | ValueError | TypeError | OverflowError | IndexError | KeyError
  | ZoneInfoNotFoundError | TelegramError

text \<open>\<^verbatim>\<open>d.get(k, default)\<close>, \<^verbatim>\<open>d.setdefault(k, v)\<close> and \<^verbatim>\<open>d[k] = v\<close> on an
  insertion-ordered dictionary.\<close>

definition dict_get :: "('k \<times> 'v) list \<Rightarrow> 'k \<Rightarrow> 'v \<Rightarrow> 'v" where
  "dict_get d k dflt = (case map_of d k of None \<Rightarrow> dflt | Some v \<Rightarrow> v)"

definition setdefault :: "('k \<times> 'v) list \<Rightarrow> 'k \<Rightarrow> 'v \<Rightarrow> ('k \<times> 'v) list" where
  "setdefault d k v = (case map_of d k of None \<Rightarrow> d @ [(k, v)] | Some _ \<Rightarrow> d)"

definition setitem :: "('k \<times> 'v) list \<Rightarrow> 'k \<Rightarrow> 'v \<Rightarrow> ('k \<times> 'v) list" where
  "setitem d k v = AList.update k v d"

text \<open>\<^verbatim>\<open>xs[i]\<close> on a list: a negative index counts from the end, an index out of range
  raises.\<close>

definition getitem :: "'a list \<Rightarrow> int \<Rightarrow> error + 'a" where
  "getitem xs i =
     (if 0 \<le> i \<and> i < int (length xs) then Inr (xs ! nat i)
      else if i < 0 \<and> - int (length xs) \<le> i then Inr (xs ! nat (int (length xs) + i))
      else Inl IndexError)"

section \<open>Loading the catalog\<close>

text \<open>The code points \<^verbatim>\<open>str.strip()\<close> removes and those \<^verbatim>\<open>str.splitlines()\<close>
  breaks at.\<close>

definition is_space :: "nat \<Rightarrow> bool" where
  "is_space c \<longleftrightarrow> c \<in> set [9, 10, 11, 12, 13, 28, 29, 30, 31, 32, 133, 160, 5760,
     8192, 8193, 8194, 8195, 8196, 8197, 8198, 8199, 8200, 8201, 8202, 8232, 8233, 8239,
     8287, 12288]"

definition is_linebreak :: "nat \<Rightarrow> bool" where
  "is_linebreak c \<longleftrightarrow> c \<in> set [10, 11, 12, 13, 28, 29, 30, 133, 8232, 8233]"

definition strip :: "pystr \<Rightarrow> pystr" where
  "strip s = rev (dropWhile is_space (rev (dropWhile is_space s)))"

text \<open>\<open>splitlines_from cur s\<close>: the lines of \<open>s\<close>, the first one continuing the
  unfinished line \<open>cur\<close>. A carriage return followed by a line feed is one break, and a
  final break opens no empty last line.\<close>

fun splitlines_from :: "pystr \<Rightarrow> pystr \<Rightarrow> pystr list" where
  "splitlines_from cur [] = (if cur = [] then [] else [cur])"
| "splitlines_from cur [c] = (if is_linebreak c then [cur] else [cur @ [c]])"
| "splitlines_from cur (c # d # s) =
     (if c = 13 \<and> d = 10 then cur # splitlines_from [] s
      else if is_linebreak c then cur # splitlines_from [] (d # s)
      else splitlines_from (cur @ [c]) (d # s))"

definition splitlines :: "pystr \<Rightarrow> pystr list" where
  "splitlines s = splitlines_from [] s"

text \<open>
  What the two calls on the path do, which is the file system's part: \<^verbatim>\<open>path.exists()\<close>
  returns a truth value, or raises the error of the underlying \<^verbatim>\<open>stat\<close> (a directory
  on the way that may not be searched); \<^verbatim>\<open>path.read_text(encoding="utf-8")\<close> returns
  the decoded text, or raises: the path is a directory, the file may not be read, or its
  bytes are not UTF-8 (a catalog saved in another encoding).
\<close>

record file_path =
  p_exists :: "error + bool"
  p_read_text :: "error + pystr"

text \<open>\<^verbatim>\<open>load_messages(path)\<close>, lines 31 to 38. An error of either call is not caught.\<close>

definition load_messages :: "file_path \<Rightarrow> error + pystr list" where
  "load_messages path =
     (case p_exists path of
        Inl e \<Rightarrow> Inl e
      | Inr False \<Rightarrow> Inl FileNotFoundError
      | Inr True \<Rightarrow>
          (case p_read_text path of
             Inl e \<Rightarrow> Inl e
           | Inr text \<Rightarrow>
               (let msgs = map strip (filter (\<lambda>line. strip line \<noteq> []) (splitlines text))
                in if msgs = [] then Inl ValueError else Inr msgs)))"

section \<open>Time zone and time of day\<close>

definition DEFAULT_TZ :: pystr where
  "DEFAULT_TZ = ascii ''Europe/Minsk''"

definition DEFAULT_TIME_hour :: int where
  "DEFAULT_TIME_hour = 10"

definition DEFAULT_TIME_minute :: int where
  "DEFAULT_TIME_minute = 0"

datatype zone = Zone pystr

text \<open>\<^verbatim>\<open>ZoneInfo(key)\<close>. The time zone database belongs to the system, not to the
  program: \<open>tzdb\<close> lists the keys it knows. A key that is no \<open>str\<close> is a type error.\<close>

definition ZoneInfo :: "pystr list \<Rightarrow> pyval \<Rightarrow> error + zone" where
  "ZoneInfo tzdb key =
     (case key of
        PInt _ \<Rightarrow> Inl TypeError
      | PStr s \<Rightarrow> if s \<in> set tzdb then Inr (Zone s) else Inl ZoneInfoNotFoundError)"

text \<open>\<^verbatim>\<open>get_user_tz(data)\<close>, lines 44 to 50: \<^verbatim>\<open>except Exception\<close> catches every error
  of the first lookup; the lookup of the default in the handler is not guarded.\<close>

definition get_user_tz :: "pystr list \<Rightarrow> dict \<Rightarrow> error + zone" where
  "get_user_tz tzdb data =
     (let tz_name = dict_get data ''tz'' (PStr DEFAULT_TZ)
      in case ZoneInfo tzdb tz_name of
           Inr z \<Rightarrow> Inr z
         | Inl _ \<Rightarrow> ZoneInfo tzdb (PStr DEFAULT_TZ))"

record pytime =
  t_hour :: int
  t_minute :: int
  t_tzinfo :: zone

text \<open>
  \<^verbatim>\<open>datetime.time(hour, minute, tzinfo=z)\<close>. The constructor first converts the hour,
  then the minute, to a C \<^verbatim>\<open>int\<close> (32 bits): a value that is no integer is a type
  error, an integer that does not fit is an overflow error. Then it checks the ranges.
\<close>

definition c_int :: "pyval \<Rightarrow> error + int" where
  "c_int v =
     (case v of
        PStr _ \<Rightarrow> Inl TypeError
      | PInt i \<Rightarrow> if - (2 ^ 31) \<le> i \<and> i < 2 ^ 31 then Inr i else Inl OverflowError)"

definition mk_time :: "pyval \<Rightarrow> pyval \<Rightarrow> zone \<Rightarrow> error + pytime" where
  "mk_time h m z =
     (case c_int h of
        Inl e \<Rightarrow> Inl e
      | Inr hh \<Rightarrow>
          (case c_int m of
             Inl e \<Rightarrow> Inl e
           | Inr mm \<Rightarrow>
               if \<not> (0 \<le> hh \<and> hh \<le> 23) then Inl ValueError
               else if \<not> (0 \<le> mm \<and> mm \<le> 59) then Inl ValueError
               else Inr \<lparr>t_hour = hh, t_minute = mm, t_tzinfo = z\<rparr>))"

text \<open>\<^verbatim>\<open>get_user_time(data)\<close>, lines 52 to 58. The arguments are evaluated before
  \<^verbatim>\<open>time\<close> is called, so an error of \<^verbatim>\<open>get_user_tz\<close> comes first.\<close>

definition get_user_time :: "pystr list \<Rightarrow> dict \<Rightarrow> error + pytime" where
  "get_user_time tzdb data =
     (let h = dict_get data ''hour'' (PInt DEFAULT_TIME_hour);
          m = dict_get data ''minute'' (PInt DEFAULT_TIME_minute)
      in case get_user_tz tzdb data of
           Inl e \<Rightarrow> Inl e
         | Inr z \<Rightarrow> mk_time h m z)"

section \<open>Formatting\<close>

text \<open>\<^verbatim>\<open>str(n)\<close> of an integer, as an f-string renders it: decimal digits, a minus sign
  for a negative number.\<close>

fun digits :: "nat \<Rightarrow> pystr" where
  "digits n = (if n < 10 then [48 + n] else digits (n div 10) @ [48 + n mod 10])"

declare digits.simps [simp del]

text \<open>Reading the digits back, to show that distinct numbers are written differently.\<close>

definition undigits :: "pystr \<Rightarrow> nat" where
  "undigits s = foldl (\<lambda>a c. 10 * a + (c - 48)) 0 s"

definition str_int :: "int \<Rightarrow> pystr" where
  "str_int i = (if i < 0 then 45 # digits (nat (- i)) else digits (nat i))"

text \<open>\<^verbatim>\<open>f"{n:02d}"\<close>: padded with zeros to two characters, the sign included.\<close>

definition fmt02d :: "int \<Rightarrow> pystr" where
  "fmt02d i = (if 0 \<le> i \<and> i < 10 then 48 # str_int i else str_int i)"

definition py_str :: "pyval \<Rightarrow> pystr" where
  "py_str v = (case v of PInt i \<Rightarrow> str_int i | PStr s \<Rightarrow> s)"

section \<open>The bot's state\<close>

text \<open>
  A job of the library's job queue, as \<^verbatim>\<open>run_daily\<close> creates it: its name, chat, time
  of day and data; the callback is always \<^verbatim>\<open>send_message_job\<close>. The state of the
  process is the application's \<^verbatim>\<open>chat_data\<close> (one dictionary per chat id, the part
  the persistence keeps), the job queue (\<open>None\<close> when the library runs without one)
  and the messages the transport has accepted so far.
\<close>

record job =
  j_name :: pystr
  j_chat_id :: int
  j_time :: pytime
  j_data :: "dict option"

record world =
  chat_data :: "(int \<times> dict) list"
  job_queue :: "job list option"
  outbox :: "(int \<times> pystr) list"

text \<open>The transport: whether \<^verbatim>\<open>bot.send_message(chat_id, text)\<close> succeeds. A failed
  send raises and changes nothing.\<close>

type_synonym transport = "int \<Rightarrow> pystr \<Rightarrow> bool"

definition send_message :: "transport \<Rightarrow> int \<Rightarrow> pystr \<Rightarrow> world \<Rightarrow> error option \<times> world" where
  "send_message net chat_id text w =
     (if net chat_id text then (None, w\<lparr>outbox := outbox w @ [(chat_id, text)]\<rparr>)
      else (Some TelegramError, w))"

section \<open>Scheduling\<close>

definition job_name :: "int \<Rightarrow> pystr" where
  "job_name chat_id = ascii ''daily-'' @ str_int chat_id"

text \<open>The library's queue: \<^verbatim>\<open>get_jobs_by_name\<close> selects by name,
  \<^verbatim>\<open>schedule_removal\<close> takes one job out, \<^verbatim>\<open>run_daily\<close> adds one.\<close>

definition get_jobs_by_name :: "job list \<Rightarrow> pystr \<Rightarrow> job list" where
  "get_jobs_by_name js n = filter (\<lambda>j. j_name j = n) js"

definition schedule_removal :: "job \<Rightarrow> job list \<Rightarrow> job list" where
  "schedule_removal j js = remove1 j js"

definition run_daily :: "job list \<Rightarrow> pytime \<Rightarrow> int \<Rightarrow> pystr \<Rightarrow> dict \<Rightarrow> job list" where
  "run_daily js t chat_id n d =
     js @ [\<lparr>j_name = n, j_chat_id = chat_id, j_time = t, j_data = Some d\<rparr>]"

text \<open>\<^verbatim>\<open>cancel_existing_job\<close>, lines 63 to 69, on the queue it is given.\<close>

definition cancel_existing_job :: "job list option \<Rightarrow> int \<Rightarrow> job list option" where
  "cancel_existing_job jq chat_id =
     (case jq of
        None \<Rightarrow> None
      | Some js \<Rightarrow> Some (fold schedule_removal (get_jobs_by_name js (job_name chat_id)) js))"

text \<open>\<^verbatim>\<open>schedule_daily_job\<close>, lines 71 to 85. \<^verbatim>\<open>get_user_time\<close> runs after the old
  jobs are removed, so its error leaves the chat without a job.\<close>

definition schedule_daily_job :: "pystr list \<Rightarrow> int \<Rightarrow> dict \<Rightarrow> world \<Rightarrow> error option \<times> world" where
  "schedule_daily_job tzdb chat_id data w =
     (case job_queue w of
        None \<Rightarrow> (None, w)
      | Some _ \<Rightarrow>
          (let w1 = w\<lparr>job_queue := cancel_existing_job (job_queue w) chat_id\<rparr>
           in case get_user_time tzdb data of
                Inl e \<Rightarrow> (Some e, w1)
              | Inr t \<Rightarrow>
                  (None, w1\<lparr>job_queue :=
                     map_option (\<lambda>js. run_daily js t chat_id (job_name chat_id)
                        [(''chat_id'', PInt chat_id)]) (job_queue w1)\<rparr>)))"

text \<open>The job \<^verbatim>\<open>schedule_daily_job\<close> arms for a chat, and the jobs of a chat that are live
  in a state.\<close>

definition daily_job :: "int \<Rightarrow> pytime \<Rightarrow> job" where
  "daily_job chat_id t =
     \<lparr>j_name = job_name chat_id, j_chat_id = chat_id, j_time = t,
      j_data = Some [(''chat_id'', PInt chat_id)]\<rparr>"

definition timers :: "world \<Rightarrow> int \<Rightarrow> job list" where
  "timers w chat_id =
     (case job_queue w of None \<Rightarrow> [] | Some js \<Rightarrow> get_jobs_by_name js (job_name chat_id))"

text \<open>The stored cursor of a chat: the \<^verbatim>\<open>index\<close> field of its dictionary, when both
  exist.\<close>

definition cursor :: "world \<Rightarrow> int \<Rightarrow> pyval option" where
  "cursor w chat_id =
     (case map_of (chat_data w) chat_id of None \<Rightarrow> None | Some d \<Rightarrow> map_of d ''index'')"

text \<open>A field of the dictionary stored for a chat.\<close>

definition stored :: "world \<Rightarrow> int \<Rightarrow> string \<Rightarrow> pyval option" where
  "stored w chat_id k =
     (case map_of (chat_data w) chat_id of None \<Rightarrow> None | Some d \<Rightarrow> map_of d k)"

section \<open>Delivery\<close>

text \<open>The text of line 100.\<close>

definition COMPLETION_NOTICE :: pystr where
  "COMPLETION_NOTICE = [1069, 1090, 1086, 32, 1073, 1099, 1083, 1086, 32, 1087, 1086, 1089,
     1083, 1077, 1076, 1085, 1077, 1077, 32, 1089, 1086, 1086, 1073, 1097, 1077, 1085, 1080,
     1077, 46, 32, 1043, 1086, 1076, 32, 1079, 1072, 1074, 1077, 1088, 1096, 1105, 1085, 46,
     32, 1063, 1090, 1086, 1073, 1099, 32, 1085, 1072, 1095, 1072, 1090, 1100, 32, 1079, 1072,
     1085, 1086, 1074, 1086, 32, 8212, 32, 47, 114, 101, 115, 101, 116, 46]"

text \<open>\<^verbatim>\<open>send_message_job\<close>, lines 89 to 103, for the job that fires. Line 91 reads the
  chat id from the job's data, \<^verbatim>\<open>(context.job.data or {}).get("chat_id")\<close>. The chat's
  dictionary is the object stored in \<^verbatim>\<open>chat_data\<close>, so line 103 writes the store.
  \<^verbatim>\<open>chat_data\<close> has integer keys: a chat id that is a \<open>str\<close> finds no record.\<close>

definition data_chat_id :: "job \<Rightarrow> pyval option" where
  "data_chat_id j = map_of (case j_data j of None \<Rightarrow> [] | Some d \<Rightarrow> d) ''chat_id''"

definition send_message_job :: "pystr list \<Rightarrow> transport \<Rightarrow> job \<Rightarrow> world \<Rightarrow> error option \<times> world" where
  "send_message_job MESSAGES net j w =
     (case data_chat_id j of
        None \<Rightarrow> (None, w)
      | Some (PStr _) \<Rightarrow> (None, w)
      | Some (PInt chat_id) \<Rightarrow>
          (case map_of (chat_data w) chat_id of
             None \<Rightarrow> (None, w)
           | Some chat_store \<Rightarrow>
               if chat_store = [] then (None, w)
               else
                 (case dict_get chat_store ''index'' (PInt 0) of
                    PStr _ \<Rightarrow> (Some TypeError, w)
                  | PInt idx \<Rightarrow>
                      if idx \<ge> int (length MESSAGES) then
                        send_message net chat_id COMPLETION_NOTICE
                          (w\<lparr>job_queue := cancel_existing_job (job_queue w) chat_id\<rparr>)
                      else
                        (case getitem MESSAGES idx of
                           Inl e \<Rightarrow> (Some e, w)
                         | Inr text \<Rightarrow>
                             (case send_message net chat_id text w of
                                (Some e, w1) \<Rightarrow> (Some e, w1)
                              | (None, w1) \<Rightarrow>
                                  (None, w1\<lparr>chat_data :=
                                     setitem (chat_data w1) chat_id
                                       (setitem chat_store ''index'' (PInt (idx + 1)))\<rparr>))))))"

section \<open>Commands\<close>

text \<open>The reply texts of lines 116 to 170, by code point.\<close>

definition GREETING :: pystr where
  "GREETING =
     [1055, 1088, 1080, 1074, 1077, 1090, 33, 32, 1041, 1091, 1076, 1091, 32, 1089,
      1083, 1072, 1090, 1100, 32, 1090, 1077, 1073, 1077, 32, 1089, 1086, 1086, 1073,
      1097, 1077, 1085, 1080, 1103, 32, 1082, 1072, 1078, 1076, 1099, 1081, 32, 1076,
      1077, 1085, 1100, 32, 1074, 32]"

definition SETTIME_USAGE :: pystr where
  "SETTIME_USAGE =
     [1060, 1086, 1088, 1084, 1072, 1090, 58, 32, 47, 115, 101, 116, 116, 105, 109, 101,
      32, 72, 72, 58, 77, 77]"

definition SETTIME_INVALID :: pystr where
  "SETTIME_INVALID =
     [1053, 1077, 1074, 1077, 1088, 1085, 1099, 1081, 32, 1092, 1086, 1088, 1084, 1072,
      1090, 46, 32, 1055, 1088, 1080, 1084, 1077, 1088, 58, 32, 47, 115, 101, 116, 116,
      105, 109, 101, 32, 48, 57, 58, 51, 48]"

definition TIME_CHANGED :: pystr where
  "TIME_CHANGED =
     [1042, 1088, 1077, 1084, 1103, 32, 1080, 1079, 1084, 1077, 1085, 1077, 1085, 1086,
      32, 1085, 1072, 32]"

definition SETTZ_USAGE :: pystr where
  "SETTZ_USAGE =
     [1060, 1086, 1088, 1084, 1072, 1090, 58, 32, 47, 115, 101, 116, 116, 122, 32, 69,
      117, 114, 111, 112, 101, 47, 77, 105, 110, 115, 107]"

definition SETTZ_INVALID :: pystr where
  "SETTZ_INVALID =
     [1053, 1077, 1074, 1077, 1088, 1085, 1099, 1081, 32, 1095, 1072, 1089, 1086, 1074,
      1086, 1081, 32, 1087, 1086, 1103, 1089, 46]"

definition TZ_CHANGED :: pystr where
  "TZ_CHANGED =
     [1063, 1072, 1089, 1086, 1074, 1086, 1081, 32, 1087, 1086, 1103, 1089, 32, 1080,
      1079, 1084, 1077, 1085, 1105, 1085, 58, 32]"

definition STATUS_TIME :: pystr where
  "STATUS_TIME =
     [45, 32, 1042, 1088, 1077, 1084, 1103, 58, 32]"

definition STATUS_TZ :: pystr where
  "STATUS_TZ =
     [10, 45, 32, 1063, 1072, 1089, 1086, 1074, 1086, 1081, 32, 1087, 1086, 1103, 1089,
      58, 32]"

definition STATUS_NEXT :: pystr where
  "STATUS_NEXT =
     [10, 45, 32, 1057, 1083, 1077, 1076, 1091, 1102, 1097, 1077, 1077, 32, 1089, 1086,
      1086, 1073, 1097, 1077, 1085, 1080, 1077, 32, 8470, 58, 32]"

definition STATUS_LEFT :: pystr where
  "STATUS_LEFT =
     [10, 45, 32, 1054, 1089, 1090, 1072, 1083, 1086, 1089, 1100, 58, 32]"

definition PAUSE_REPLY :: pystr where
  "PAUSE_REPLY =
     [1055, 1072, 1091, 1079, 1072, 46, 32, 1044, 1083, 1103, 32, 1074, 1086, 1079,
      1086, 1073, 1085, 1086, 1074, 1083, 1077, 1085, 1080, 1103, 32, 8212, 32, 47, 114,
      101, 115, 117, 109, 101, 46]"

definition RESUME_REPLY :: pystr where
  "RESUME_REPLY =
     [1042, 1086, 1079, 1086, 1073, 1085, 1086, 1074, 1080, 1083, 32, 1086, 1090, 1087,
      1088, 1072, 1074, 1082, 1091, 46]"

definition RESET_REPLY :: pystr where
  "RESET_REPLY =
     [1057, 1073, 1088, 1086, 1089, 1080, 1083, 32, 1087, 1088, 1086, 1075, 1088, 1077,
      1089, 1089, 46, 32, 1053, 1072, 1095, 1085, 1105, 1084, 32, 1089, 32, 1087, 1077,
      1088, 1074, 1086, 1075, 1086, 32, 1089, 1086, 1086, 1073, 1097, 1077, 1085, 1080,
      1103, 46]"

text \<open>
  \<^verbatim>\<open>context.chat_data\<close> in a handler is the dictionary of the update's chat; the
  application keeps them in a \<^verbatim>\<open>defaultdict\<close>, so reading it for a new chat stores an
  empty dictionary first. \<^verbatim>\<open>update.message.reply_text\<close> sends to the same chat.
\<close>

definition context_chat_data :: "int \<Rightarrow> world \<Rightarrow> dict \<times> world" where
  "context_chat_data chat_id w =
     (case map_of (chat_data w) chat_id of
        None \<Rightarrow> ([], w\<lparr>chat_data := chat_data w @ [(chat_id, [])]\<rparr>)
      | Some d \<Rightarrow> (d, w))"

definition reply_text :: "transport \<Rightarrow> int \<Rightarrow> pystr \<Rightarrow> world \<Rightarrow> error option \<times> world" where
  "reply_text net chat_id text w = send_message net chat_id text w"

text \<open>\<^verbatim>\<open>start\<close>, lines 107 to 117.\<close>

definition start :: "pystr list \<Rightarrow> transport \<Rightarrow> int \<Rightarrow> world \<Rightarrow> error option \<times> world" where
  "start tzdb net chat_id w =
     (let (d0, w0) = context_chat_data chat_id w;
          d1 = setdefault d0 ''tz'' (PStr DEFAULT_TZ);
          d2 = setdefault d1 ''hour'' (PInt DEFAULT_TIME_hour);
          d3 = setdefault d2 ''minute'' (PInt DEFAULT_TIME_minute);
          d4 = setdefault d3 ''index'' (PInt 0);
          w1 = w0\<lparr>chat_data := setitem (chat_data w0) chat_id d4\<rparr>
      in case schedule_daily_job tzdb chat_id d4 w1 of
           (Some e, w2) \<Rightarrow> (Some e, w2)
         | (None, w2) \<Rightarrow>
             (case get_user_time tzdb d4 of
                Inl e \<Rightarrow> (Some e, w2)
              | Inr t \<Rightarrow>
                  (case map_of d4 ''tz'' of
                     None \<Rightarrow> (Some KeyError, w2)
                   | Some tz \<Rightarrow>
                       reply_text net chat_id
                         (GREETING @ fmt02d (t_hour t) @ ascii '':'' @ fmt02d (t_minute t)
                            @ ascii '' ('' @ py_str tz @ ascii '').'') w2)))"

text \<open>\<^verbatim>\<open>s.split(sep)\<close> for a separator of one character.\<close>

fun split_from :: "nat \<Rightarrow> pystr \<Rightarrow> pystr \<Rightarrow> pystr list" where
  "split_from sep cur [] = [cur]"
| "split_from sep cur (c # s) =
     (if c = sep then cur # split_from sep [] s else split_from sep (cur @ [c]) s)"

definition split :: "pystr \<Rightarrow> nat \<Rightarrow> pystr list" where
  "split s sep = split_from sep [] s"

text \<open>The \<^verbatim>\<open>try\<close> block of \<^verbatim>\<open>settime\<close>, lines 124 to 130: \<open>None\<close> stands for the
  \<^verbatim>\<open>ValueError\<close> it catches. \<open>py_int\<close> is Python's \<^verbatim>\<open>int\<close> on a \<open>str\<close>, \<open>None\<close>
  where it raises.\<close>

definition parse_hh_mm :: "(pystr \<Rightarrow> int option) \<Rightarrow> pystr \<Rightarrow> (int \<times> int) option" where
  "parse_hh_mm py_int s =
     (case map py_int (split s 58) of
        [Some hh, Some mm] \<Rightarrow>
          if 0 \<le> hh \<and> hh \<le> 23 \<and> 0 \<le> mm \<and> mm \<le> 59 then Some (hh, mm) else None
      | _ \<Rightarrow> None)"

text \<open>\<^verbatim>\<open>settime\<close>, lines 119 to 134.\<close>

definition settime ::
  "pystr list \<Rightarrow> (pystr \<Rightarrow> int option) \<Rightarrow> transport \<Rightarrow> int \<Rightarrow> pystr list \<Rightarrow> world
     \<Rightarrow> error option \<times> world" where
  "settime tzdb py_int net chat_id args w =
     (if args = [] \<or> length (split (hd args) 58) \<noteq> 2 then
        reply_text net chat_id SETTIME_USAGE w
      else
        (case parse_hh_mm py_int (hd args) of
           None \<Rightarrow> reply_text net chat_id SETTIME_INVALID w
         | Some (hh, mm) \<Rightarrow>
             (let (d0, w0) = context_chat_data chat_id w;
                  d1 = setitem d0 ''hour'' (PInt hh);
                  d2 = setitem d1 ''minute'' (PInt mm);
                  w1 = w0\<lparr>chat_data := setitem (chat_data w0) chat_id d2\<rparr>
              in case schedule_daily_job tzdb chat_id d2 w1 of
                   (Some e, w2) \<Rightarrow> (Some e, w2)
                 | (None, w2) \<Rightarrow>
                     reply_text net chat_id
                       (TIME_CHANGED @ fmt02d hh @ ascii '':'' @ fmt02d mm @ ascii ''.'') w2)))"

text \<open>\<^verbatim>\<open>settz\<close>, lines 136 to 148.\<close>

definition settz ::
  "pystr list \<Rightarrow> transport \<Rightarrow> int \<Rightarrow> pystr list \<Rightarrow> world \<Rightarrow> error option \<times> world" where
  "settz tzdb net chat_id args w =
     (if args = [] then reply_text net chat_id SETTZ_USAGE w
      else
        (case ZoneInfo tzdb (PStr (hd args)) of
           Inl _ \<Rightarrow> reply_text net chat_id SETTZ_INVALID w
         | Inr _ \<Rightarrow>
             (let (d0, w0) = context_chat_data chat_id w;
                  d1 = setitem d0 ''tz'' (PStr (hd args));
                  w1 = w0\<lparr>chat_data := setitem (chat_data w0) chat_id d1\<rparr>
              in case schedule_daily_job tzdb chat_id d1 w1 of
                   (Some e, w2) \<Rightarrow> (Some e, w2)
                 | (None, w2) \<Rightarrow>
                     reply_text net chat_id (TZ_CHANGED @ hd args @ ascii ''.'') w2)))"

text \<open>\<^verbatim>\<open>status\<close>, lines 150 to 158. Line 155 subtracts the cursor before the f-string
  formats the hour and the minute.\<close>

definition status :: "pystr list \<Rightarrow> transport \<Rightarrow> int \<Rightarrow> world \<Rightarrow> error option \<times> world" where
  "status MESSAGES net chat_id w =
     (let (d, w0) = context_chat_data chat_id w;
          tz = dict_get d ''tz'' (PStr DEFAULT_TZ);
          hh = dict_get d ''hour'' (PInt DEFAULT_TIME_hour);
          mm = dict_get d ''minute'' (PInt DEFAULT_TIME_minute);
          idx = dict_get d ''index'' (PInt 0)
      in case idx of
           PStr _ \<Rightarrow> (Some TypeError, w0)
         | PInt i \<Rightarrow>
             (let left = max 0 (int (length MESSAGES) - i)
              in case hh of
                   PStr _ \<Rightarrow> (Some ValueError, w0)
                 | PInt h \<Rightarrow>
                     (case mm of
                        PStr _ \<Rightarrow> (Some ValueError, w0)
                      | PInt m \<Rightarrow>
                          reply_text net chat_id
                            (STATUS_TIME @ fmt02d h @ ascii '':'' @ fmt02d m @ STATUS_TZ
                               @ py_str tz @ STATUS_NEXT @ str_int (i + 1) @ STATUS_LEFT
                               @ str_int left) w0)))"

text \<open>\<^verbatim>\<open>pause\<close>, \<^verbatim>\<open>resume\<close> and \<^verbatim>\<open>reset\<close>, lines 160 to 170. \<^verbatim>\<open>pause\<close> does not
  read \<^verbatim>\<open>context.chat_data\<close>.\<close>

definition pause :: "transport \<Rightarrow> int \<Rightarrow> world \<Rightarrow> error option \<times> world" where
  "pause net chat_id w =
     reply_text net chat_id PAUSE_REPLY
       (w\<lparr>job_queue := cancel_existing_job (job_queue w) chat_id\<rparr>)"

definition resume :: "pystr list \<Rightarrow> transport \<Rightarrow> int \<Rightarrow> world \<Rightarrow> error option \<times> world" where
  "resume tzdb net chat_id w =
     (let (d, w0) = context_chat_data chat_id w
      in case schedule_daily_job tzdb chat_id d w0 of
           (Some e, w1) \<Rightarrow> (Some e, w1)
         | (None, w1) \<Rightarrow> reply_text net chat_id RESUME_REPLY w1)"

definition reset :: "transport \<Rightarrow> int \<Rightarrow> world \<Rightarrow> error option \<times> world" where
  "reset net chat_id w =
     (let (d, w0) = context_chat_data chat_id w;
          w1 = w0\<lparr>chat_data := setitem (chat_data w0) chat_id (setitem d ''index'' (PInt 0))\<rparr>
      in reply_text net chat_id RESET_REPLY w1)"

section \<open>Startup\<close>

text \<open>\<^verbatim>\<open>on_startup\<close>, lines 187 to 190: the loop over the items of \<^verbatim>\<open>chat_data\<close>, in
  their order; it ends at the first error. Every stored value is a dictionary, so the
  \<^verbatim>\<open>isinstance\<close> test holds, and \<^verbatim>\<open>int(chat_id)\<close> is the id itself.\<close>

fun on_startup_loop :: "pystr list \<Rightarrow> (int \<times> dict) list \<Rightarrow> world \<Rightarrow> error option \<times> world" where
  "on_startup_loop tzdb [] w = (None, w)"
| "on_startup_loop tzdb ((chat_id, chat_store) # items) w =
     (case schedule_daily_job tzdb chat_id chat_store w of
        (Some e, w1) \<Rightarrow> (Some e, w1)
      | (None, w1) \<Rightarrow> on_startup_loop tzdb items w1)"

definition on_startup :: "pystr list \<Rightarrow> world \<Rightarrow> error option \<times> world" where
  "on_startup tzdb w = on_startup_loop tzdb (chat_data w) w"

text \<open>A process that starts: the persistence gives back \<^verbatim>\<open>chat_data\<close>, the job queue
  (when there is one) is new and empty, and \<^verbatim>\<open>on_startup\<close> runs.\<close>

definition fresh_process :: "world \<Rightarrow> world" where
  "fresh_process w = w\<lparr>job_queue := map_option (\<lambda>_. []) (job_queue w)\<rparr>"

definition restart :: "pystr list \<Rightarrow> world \<Rightarrow> error option \<times> world" where
  "restart tzdb w = on_startup tzdb (fresh_process w)"

section \<open>Reachable states\<close>

text \<open>
  The states of a deployment: it starts with no subscriber, with or without a job
  queue; then commands arrive from any chat, a job of the queue fires, or the process
  restarts. An error a handler raises is logged by the library and the process goes on
  in the state the handler left.
\<close>

definition init_world :: "bool \<Rightarrow> world" where
  "init_world with_queue =
     \<lparr>chat_data = [], job_queue = (if with_queue then Some [] else None), outbox = []\<rparr>"

inductive reachable :: "pystr list \<Rightarrow> pystr list \<Rightarrow> (pystr \<Rightarrow> int option) \<Rightarrow> world \<Rightarrow> bool"
  for MESSAGES :: "pystr list" and tzdb :: "pystr list" and py_int :: "pystr \<Rightarrow> int option"
where
  r_init: "reachable MESSAGES tzdb py_int (init_world with_queue)"
| r_start: "reachable MESSAGES tzdb py_int w
     \<Longrightarrow> reachable MESSAGES tzdb py_int (snd (start tzdb net chat_id w))"
| r_settime: "reachable MESSAGES tzdb py_int w
     \<Longrightarrow> reachable MESSAGES tzdb py_int (snd (settime tzdb py_int net chat_id args w))"
| r_settz: "reachable MESSAGES tzdb py_int w
     \<Longrightarrow> reachable MESSAGES tzdb py_int (snd (settz tzdb net chat_id args w))"
| r_status: "reachable MESSAGES tzdb py_int w
     \<Longrightarrow> reachable MESSAGES tzdb py_int (snd (status MESSAGES net chat_id w))"
| r_pause: "reachable MESSAGES tzdb py_int w
     \<Longrightarrow> reachable MESSAGES tzdb py_int (snd (pause net chat_id w))"
| r_resume: "reachable MESSAGES tzdb py_int w
     \<Longrightarrow> reachable MESSAGES tzdb py_int (snd (resume tzdb net chat_id w))"
| r_reset: "reachable MESSAGES tzdb py_int w
     \<Longrightarrow> reachable MESSAGES tzdb py_int (snd (reset net chat_id w))"
| r_fire: "reachable MESSAGES tzdb py_int w \<Longrightarrow> job_queue w = Some js \<Longrightarrow> j \<in> set js
     \<Longrightarrow> reachable MESSAGES tzdb py_int (snd (send_message_job MESSAGES net j w))"
| r_restart: "reachable MESSAGES tzdb py_int w
     \<Longrightarrow> reachable MESSAGES tzdb py_int (snd (restart tzdb w))"

section \<open>The invariant\<close>

text \<open>What the reachable states keep: the cursor of every stored dictionary, read as the
  code reads it (0 when the field is absent), is an integer between 0 and the length of
  the catalog, and no two jobs of the queue have the same name.\<close>

definition cursor_ok :: "pystr list \<Rightarrow> dict \<Rightarrow> bool" where
  "cursor_ok MESSAGES d =
     (case dict_get d ''index'' (PInt 0) of
        PInt i \<Rightarrow> 0 \<le> i \<and> i \<le> int (length MESSAGES)
      | PStr _ \<Rightarrow> False)"

definition stores_ok :: "pystr list \<Rightarrow> world \<Rightarrow> bool" where
  "stores_ok MESSAGES w = (\<forall>c d. map_of (chat_data w) c = Some d \<longrightarrow> cursor_ok MESSAGES d)"

definition names_distinct :: "world \<Rightarrow> bool" where
  "names_distinct w = (case job_queue w of None \<Rightarrow> True | Some js \<Rightarrow> distinct (map j_name js))"

section \<open>Example data\<close>

text \<open>A catalog of five messages, a subscriber with id 7 at a given cursor and with its
  daily job armed, and a transport that is up or down.\<close>

definition catalog5 :: "pystr list" where
  "catalog5 = [ascii ''one'', ascii ''two'', ascii ''three'', ascii ''four'', ascii ''five'']"

definition store7 :: "int \<Rightarrow> dict" where
  "store7 idx =
     [(''tz'', PStr DEFAULT_TZ), (''hour'', PInt 10), (''minute'', PInt 0),
      (''index'', PInt idx)]"

definition time7 :: pytime where
  "time7 = \<lparr>t_hour = 10, t_minute = 0, t_tzinfo = Zone DEFAULT_TZ\<rparr>"

definition world7 :: "int \<Rightarrow> world" where
  "world7 idx =
     \<lparr>chat_data = [(7, store7 idx)], job_queue = Some [daily_job 7 time7], outbox = []\<rparr>"

definition net_up :: transport where
  "net_up chat_id text = True"


text \<open>The text of a messages file of three lines, the second one empty, and a text of
  white space only; then four paths: no file, a file of white space, a file with that
  text, and a file that is there but whose bytes are not UTF-8.\<close>

definition messages_txt :: pystr where
  "messages_txt = ascii '' one '' @ [13, 10, 10] @ ascii ''two'' @ [10]"

definition blank_txt :: pystr where
  "blank_txt = [32, 13, 10, 9, 10]"

definition missing_file :: file_path where
  "missing_file = \<lparr>p_exists = Inr False, p_read_text = Inl FileNotFoundError\<rparr>"

definition blank_file :: file_path where
  "blank_file = \<lparr>p_exists = Inr True, p_read_text = Inr blank_txt\<rparr>"

definition messages_file :: file_path where
  "messages_file = \<lparr>p_exists = Inr True, p_read_text = Inr messages_txt\<rparr>"

definition cp1251_file :: file_path where
  "cp1251_file = \<lparr>p_exists = Inr True, p_read_text = Inl UnicodeDecodeError\<rparr>"

text \<open>A subscriber with id 9 who chose a zone and an hour, on a process without a job
  queue; no parser of integers; the states after chat 7 sends \<^verbatim>\<open>/start\<close> to a new
  deployment and then \<^verbatim>\<open>/pause\<close>.\<close>

definition store9 :: dict where
  "store9 = [(''tz'', PStr (ascii ''UTC'')), (''hour'', PInt 7), (''index'', PInt 3)]"

definition world9 :: world where
  "world9 = \<lparr>chat_data = [(9, store9)], job_queue = None, outbox = []\<rparr>"

definition no_int :: "pystr \<Rightarrow> int option" where
  "no_int s = None"

definition greeting7 :: pystr where
  "greeting7 = GREETING @ fmt02d 10 @ ascii '':'' @ fmt02d 0 @ ascii '' ('' @ DEFAULT_TZ
     @ ascii '').''"

definition started7 :: world where
  "started7 =
     \<lparr>chat_data = [(7, store7 0)], job_queue = Some [daily_job 7 time7],
      outbox = [(7, greeting7)]\<rparr>"

definition paused7 :: world where
  "paused7 =
     \<lparr>chat_data = [(7, store7 0)], job_queue = Some [],
      outbox = [(7, greeting7), (7, PAUSE_REPLY)]\<rparr>"

section \<open>Dictionaries and the job queue\<close>

lemma map_of_setitem: "map_of (setitem d k v) = (map_of d)(k \<mapsto> v)"
  by (simp add: setitem_def update_conv')

lemma map_of_setdefault:
  "map_of (setdefault d k v) k' = (if k' = k \<and> map_of d k = None then Some v else map_of d k')"
  by (auto simp: setdefault_def map_add_def split: option.splits)

lemma getitem_nat: "0 \<le> i \<Longrightarrow> i < int (length xs) \<Longrightarrow> getitem xs i = Inr (xs ! nat i)"
  by (simp add: getitem_def)

text \<open>The removal loop of \<^verbatim>\<open>cancel_existing_job\<close> leaves exactly the jobs of other
  names, in their order.\<close>

lemma fold_removal_filter:
  "\<forall>z\<in>set zs. \<not> P z \<Longrightarrow>
     fold schedule_removal (filter P ys) (zs @ ys) = zs @ filter (\<lambda>y. \<not> P y) ys"
proof (induction ys arbitrary: zs)
  case Nil
  then show ?case by simp
next
  case (Cons y ys)
  show ?case
  proof (cases "P y")
    case True
    with Cons.prems have "y \<notin> set zs" by auto
    then have "remove1 y (zs @ y # ys) = zs @ ys"
      by (simp add: remove1_append)
    with True Cons.IH [OF Cons.prems] show ?thesis
      by (simp add: schedule_removal_def)
  next
    case False
    with Cons.prems have "\<forall>z\<in>set (zs @ [y]). \<not> P z" by auto
    from Cons.IH [OF this] False show ?thesis by simp
  qed
qed

lemma cancel_existing_job_Some:
  "cancel_existing_job (Some js) chat_id = Some (filter (\<lambda>j. j_name j \<noteq> job_name chat_id) js)"
  using fold_removal_filter [of "[]" "\<lambda>j. j_name j = job_name chat_id" js]
  by (simp add: cancel_existing_job_def get_jobs_by_name_def)

lemma cancel_existing_job_None: "cancel_existing_job None chat_id = None"
  by (simp add: cancel_existing_job_def)

lemma timers_cancel:
  "timers (w\<lparr>job_queue := cancel_existing_job (job_queue w) chat_id\<rparr>) chat_id = []"
  by (cases "job_queue w")
     (simp_all add: timers_def cancel_existing_job_Some cancel_existing_job_None
        get_jobs_by_name_def)

lemma send_message_frame:
  "chat_data (snd (send_message net c t w)) = chat_data w"
  "job_queue (snd (send_message net c t w)) = job_queue w"
  by (simp_all add: send_message_def)

section \<open>Job names\<close>

lemma undigits_snoc: "undigits (s @ [c]) = 10 * undigits s + (c - 48)"
  by (simp add: undigits_def)

lemma undigits_digits: "undigits (digits n) = n"
proof (induction n rule: digits.induct)
  case (1 n)
  show ?case
  proof (cases "n < 10")
    case True
    then show ?thesis by (simp add: digits.simps [of n] undigits_def)
  next
    case False
    with "1" have "undigits (digits (n div 10)) = n div 10" by simp
    with False show ?thesis
      by (simp add: digits.simps [of n] undigits_snoc)
  qed
qed

lemma digits_inj: "digits m = digits n \<Longrightarrow> m = n"
  by (metis undigits_digits)

lemma digits_ge: "c \<in> set (digits n) \<Longrightarrow> 48 \<le> c"
proof (induction n rule: digits.induct)
  case (1 n)
  then show ?case
    by (cases "n < 10") (auto simp: digits.simps [of n])
qed

lemma digits_no_minus: "digits n \<noteq> 45 # s"
proof
  assume "digits n = 45 # s"
  then have "45 \<in> set (digits n)" by simp
  from digits_ge [OF this] show False by simp
qed

lemma str_int_inj: "str_int i = str_int j \<Longrightarrow> i = j"
proof (cases "i < 0"; cases "j < 0")
  assume "str_int i = str_int j" "i < 0" "j < 0"
  then have "nat (- i) = nat (- j)" by (auto simp: str_int_def dest: digits_inj)
  with \<open>i < 0\<close> \<open>j < 0\<close> show ?thesis by simp
next
  assume "str_int i = str_int j" "i < 0" "\<not> j < 0"
  then show ?thesis using digits_no_minus [of "nat j" "digits (nat (- i))"]
    by (simp add: str_int_def)
next
  assume "str_int i = str_int j" "\<not> i < 0" "j < 0"
  then show ?thesis using digits_no_minus [of "nat i" "digits (nat (- j))"]
    by (simp add: str_int_def)
next
  assume "str_int i = str_int j" "\<not> i < 0" "\<not> j < 0"
  then have "nat i = nat j" by (auto simp: str_int_def dest: digits_inj)
  with \<open>\<not> i < 0\<close> \<open>\<not> j < 0\<close> show ?thesis by simp
qed

text \<open>Two chats never share a job name, so removing the jobs of one chat by name leaves
  those of every other chat.\<close>

lemma job_name_inj: "job_name c = job_name c' \<longleftrightarrow> c = c'"
  by (auto simp: job_name_def dest: str_int_inj)

section \<open>Delivery: a fire event\<close>

lemma ex_data_chat_id: "data_chat_id (daily_job 7 time7) = Some (PInt 7)"
  by (simp add: data_chat_id_def daily_job_def)

lemma ex_cursor: "cursor (world7 idx) 7 = Some (PInt idx)"
  by (simp add: cursor_def world7_def store7_def)

lemma ex_catalog5: "length catalog5 = 5" "catalog5 ! 2 = ascii ''three''"
  by (simp_all add: catalog5_def)

lemma send_message_fail:
  "fst (send_message net c t w) = Some e \<Longrightarrow> snd (send_message net c t w) = w"
  by (simp add: send_message_def split: if_splits)

text \<open>
  Claim C1. A job fires for a chat whose stored cursor \<open>idx\<close> is a valid position of the
  catalog (the cursor is never negative, see the invariant below) and the transport
  accepts the send: the callback returns normally, the one message sent is
  \<open>MESSAGES[idx]\<close>, to that chat, the stored cursor becomes \<open>idx + 1\<close>, and the job queue
  and the dictionaries of the other chats are as before.
\<close>

theorem fire_sends_next:
  assumes "data_chat_id j = Some (PInt chat_id)"
    and "cursor w chat_id = Some (PInt idx)"
    and "0 \<le> idx" and "idx < int (length MESSAGES)"
    and "net chat_id (MESSAGES ! nat idx)"
  shows "fst (send_message_job MESSAGES net j w) = None
     \<and> outbox (snd (send_message_job MESSAGES net j w))
         = outbox w @ [(chat_id, MESSAGES ! nat idx)]
     \<and> cursor (snd (send_message_job MESSAGES net j w)) chat_id = Some (PInt (idx + 1))
     \<and> job_queue (snd (send_message_job MESSAGES net j w)) = job_queue w
     \<and> (\<forall>c. c \<noteq> chat_id \<longrightarrow>
           map_of (chat_data (snd (send_message_job MESSAGES net j w))) c
             = map_of (chat_data w) c)"
proof -
  from assms(2) obtain chat_store where
    st: "map_of (chat_data w) chat_id = Some chat_store"
    and ix: "map_of chat_store ''index'' = Some (PInt idx)"
    by (auto simp: cursor_def split: option.splits)
  from ix have ne: "chat_store \<noteq> []" by auto
  have run: "send_message_job MESSAGES net j w =
      (None, w\<lparr>outbox := outbox w @ [(chat_id, MESSAGES ! nat idx)],
                chat_data := setitem (chat_data w) chat_id
                   (setitem chat_store ''index'' (PInt (idx + 1)))\<rparr>)"
    using assms(1,3,4,5) st ix ne
    by (simp add: send_message_job_def dict_get_def getitem_nat send_message_def)
  show ?thesis
    unfolding run by (simp add: cursor_def map_of_setitem)
qed

text \<open>The case of the specification: cursor 2 of a catalog of five sends the third
  message and leaves cursor 3.\<close>

theorem fire_sends_next_witness:
  "cursor (world7 2) 7 = Some (PInt 2) \<and> (2::int) < int (length catalog5)
   \<and> outbox (snd (send_message_job catalog5 net_up (daily_job 7 time7) (world7 2)))
       = [(7, ascii ''three'')]
   \<and> cursor (snd (send_message_job catalog5 net_up (daily_job 7 time7) (world7 2))) 7
       = Some (PInt 3)"
proof -
  have up: "net_up 7 (catalog5 ! nat 2)" by (simp add: net_up_def)
  have len: "(2::int) < int (length catalog5)" by (simp add: ex_catalog5)
  have out: "outbox (world7 2) = []" by (simp add: world7_def)
  have pos: "(0::int) \<le> 2" by simp
  from fire_sends_next [of "daily_job 7 time7" 7 "world7 2" 2 catalog5 net_up,
      OF ex_data_chat_id ex_cursor pos len up] out
  show ?thesis by (simp add: ex_cursor ex_catalog5)
qed

text \<open>
  Claim C4. A job fires for a chat whose stored cursor is at or past the end of the
  catalog: the only send is the completion notice (it reaches the chat when the
  transport accepts it, and no catalog message is sent), no job of that chat is left in
  the queue, and \<^verbatim>\<open>chat_data\<close>, the cursor with it, is unchanged.
\<close>

theorem fire_completed:
  assumes "data_chat_id j = Some (PInt chat_id)"
    and "cursor w chat_id = Some (PInt idx)"
    and "int (length MESSAGES) \<le> idx"
  shows "outbox (snd (send_message_job MESSAGES net j w))
         = outbox w @ (if net chat_id COMPLETION_NOTICE then [(chat_id, COMPLETION_NOTICE)] else [])
     \<and> timers (snd (send_message_job MESSAGES net j w)) chat_id = []
     \<and> chat_data (snd (send_message_job MESSAGES net j w)) = chat_data w"
proof -
  from assms(2) obtain chat_store where
    st: "map_of (chat_data w) chat_id = Some chat_store"
    and ix: "map_of chat_store ''index'' = Some (PInt idx)"
    by (auto simp: cursor_def split: option.splits)
  from ix have ne: "chat_store \<noteq> []" by auto
  have run: "send_message_job MESSAGES net j w =
      send_message net chat_id COMPLETION_NOTICE
        (w\<lparr>job_queue := cancel_existing_job (job_queue w) chat_id\<rparr>)"
    using assms(1,3) st ix ne
    by (simp add: send_message_job_def dict_get_def)
  show ?thesis
    unfolding run using timers_cancel [of w chat_id]
    by (simp add: send_message_def timers_def)
qed

text \<open>Cursor 5 of a catalog of five: the armed job is gone after the fire.\<close>

theorem fire_completed_witness:
  "cursor (world7 5) 7 = Some (PInt 5) \<and> int (length catalog5) \<le> 5
   \<and> timers (world7 5) 7 = [daily_job 7 time7]
   \<and> outbox (snd (send_message_job catalog5 net_up (daily_job 7 time7) (world7 5)))
       = [(7, COMPLETION_NOTICE)]
   \<and> timers (snd (send_message_job catalog5 net_up (daily_job 7 time7) (world7 5))) 7 = []
   \<and> cursor (snd (send_message_job catalog5 net_up (daily_job 7 time7) (world7 5))) 7
       = Some (PInt 5)"
proof -
  have len: "int (length catalog5) \<le> 5" by (simp add: ex_catalog5)
  have out: "outbox (world7 5) = []" by (simp add: world7_def)
  have tm: "timers (world7 5) 7 = [daily_job 7 time7]"
    by (simp add: world7_def timers_def get_jobs_by_name_def daily_job_def)
  from fire_completed [of "daily_job 7 time7" 7 "world7 5" 5 catalog5 net_up,
      OF ex_data_chat_id ex_cursor len] out tm len
  show ?thesis by (simp add: net_up_def cursor_def ex_cursor [unfolded cursor_def])
qed

text \<open>
  Claim C9. A job fires whose data carry no chat id, or whose chat id has no record in
  \<^verbatim>\<open>chat_data\<close> (none at all, or an empty dictionary; a chat id that is no integer has
  none): the callback returns normally and the state, that is the stored data, the
  queue and the messages sent, is the same.
\<close>

theorem fire_no_record:
  assumes "data_chat_id j = None
     \<or> (\<exists>s. data_chat_id j = Some (PStr s))
     \<or> (\<exists>c. data_chat_id j = Some (PInt c) \<and> map_of (chat_data w) c \<in> {None, Some []})"
  shows "send_message_job MESSAGES net j w = (None, w)"
  using assms by (auto simp: send_message_job_def)

text \<open>A job of the unknown chat 8, and a job without data.\<close>

theorem fire_no_record_witness:
  "map_of (chat_data (world7 2)) 8 = None
   \<and> send_message_job catalog5 net_up (daily_job 8 time7) (world7 2) = (None, world7 2)
   \<and> send_message_job catalog5 net_up ((daily_job 7 time7)\<lparr>j_data := None\<rparr>) (world7 2)
       = (None, world7 2)"
proof -
  have a: "data_chat_id (daily_job 8 time7) = Some (PInt 8)"
    by (simp add: data_chat_id_def daily_job_def)
  have b: "map_of (chat_data (world7 2)) 8 = None"
    by (simp add: world7_def)
  have c: "data_chat_id ((daily_job 7 time7)\<lparr>j_data := None\<rparr>) = None"
    by (simp add: data_chat_id_def)
  show ?thesis
    using fire_no_record [of "daily_job 8 time7" "world7 2" catalog5 net_up]
      fire_no_record [of "(daily_job 7 time7)\<lparr>j_data := None\<rparr>" "world7 2" catalog5 net_up]
      a b c
    by simp
qed






section \<open>Scheduling a daily job\<close>

lemma schedule_daily_job_None:
  "job_queue w = None \<Longrightarrow> schedule_daily_job tzdb chat_id data w = (None, w)"
  by (simp add: schedule_daily_job_def)

lemma schedule_daily_job_error:
  "job_queue w = Some js \<Longrightarrow> get_user_time tzdb data = Inl e \<Longrightarrow>
     schedule_daily_job tzdb chat_id data w =
       (Some e, w\<lparr>job_queue := Some (filter (\<lambda>j. j_name j \<noteq> job_name chat_id) js)\<rparr>)"
  by (simp add: schedule_daily_job_def cancel_existing_job_Some)

lemma schedule_daily_job_ok:
  "job_queue w = Some js \<Longrightarrow> get_user_time tzdb data = Inr t \<Longrightarrow>
     schedule_daily_job tzdb chat_id data w =
       (None, w\<lparr>job_queue :=
          Some (filter (\<lambda>j. j_name j \<noteq> job_name chat_id) js @ [daily_job chat_id t])\<rparr>)"
  by (simp add: schedule_daily_job_def cancel_existing_job_Some run_daily_def daily_job_def)

lemma schedule_daily_job_cases:
  obtains (no_queue) "job_queue w = None" "schedule_daily_job tzdb chat_id data w = (None, w)"
  | (error) js e where "job_queue w = Some js" "get_user_time tzdb data = Inl e"
      "schedule_daily_job tzdb chat_id data w =
         (Some e, w\<lparr>job_queue := Some (filter (\<lambda>j. j_name j \<noteq> job_name chat_id) js)\<rparr>)"
  | (ok) js t where "job_queue w = Some js" "get_user_time tzdb data = Inr t"
      "schedule_daily_job tzdb chat_id data w =
         (None, w\<lparr>job_queue :=
            Some (filter (\<lambda>j. j_name j \<noteq> job_name chat_id) js @ [daily_job chat_id t])\<rparr>)"
proof (cases "job_queue w")
  case None
  then show ?thesis using no_queue schedule_daily_job_None by blast
next
  case (Some js)
  then show ?thesis
    using error ok schedule_daily_job_error schedule_daily_job_ok
    by (cases "get_user_time tzdb data") blast+
qed

lemma schedule_frame:
  "chat_data (snd (schedule_daily_job tzdb chat_id data w)) = chat_data w"
  "outbox (snd (schedule_daily_job tzdb chat_id data w)) = outbox w"
  by (cases rule: schedule_daily_job_cases [of w tzdb chat_id data]; simp)+

lemma schedule_queue_kept:
  "job_queue w = Some js \<Longrightarrow> \<exists>js'. job_queue (snd (schedule_daily_job tzdb chat_id data w)) = Some js'"
  by (cases rule: schedule_daily_job_cases [of w tzdb chat_id data]) simp_all

lemma schedule_timers_same:
  "length (timers (snd (schedule_daily_job tzdb chat_id data w)) chat_id) \<le> 1"
  by (cases rule: schedule_daily_job_cases [of w tzdb chat_id data])
     (simp_all add: timers_def get_jobs_by_name_def daily_job_def)

lemma filter_other_name:
  "c \<noteq> chat_id \<Longrightarrow>
     filter (\<lambda>j. j_name j = job_name c) (filter (\<lambda>j. j_name j \<noteq> job_name chat_id) js)
       = filter (\<lambda>j. j_name j = job_name c) js"
  by (auto simp: job_name_inj intro: filter_cong)

lemma schedule_timers_other:
  assumes "c \<noteq> chat_id"
  shows "timers (snd (schedule_daily_job tzdb chat_id data w)) c = timers w c"
proof (cases rule: schedule_daily_job_cases [of w tzdb chat_id data])
  case no_queue
  then show ?thesis by simp
next
  case (error js e)
  with filter_other_name [OF assms] show ?thesis
    by (simp add: timers_def get_jobs_by_name_def)
next
  case (ok js t)
  with filter_other_name [OF assms] assms show ?thesis
    by (simp add: timers_def get_jobs_by_name_def daily_job_def job_name_inj)
qed

lemma schedule_timers_armed:
  "job_queue w = Some js \<Longrightarrow> get_user_time tzdb data = Inr t \<Longrightarrow>
     timers (snd (schedule_daily_job tzdb chat_id data w)) chat_id = [daily_job chat_id t]"
  by (simp add: schedule_daily_job_ok timers_def get_jobs_by_name_def daily_job_def)

lemma schedule_fold_timers:
  "chat_id \<in> fst ` set calls \<Longrightarrow>
     length (timers (fold (\<lambda>(c, d) w. snd (schedule_daily_job tzdb c d w)) calls w) chat_id) \<le> 1"
proof (induction calls arbitrary: w rule: rev_induct)
  case Nil
  then show ?case by simp
next
  case (snoc x calls)
  obtain c d where x: "x = (c, d)" by (cases x)
  show ?case
  proof (cases "c = chat_id")
    case True
    with x show ?thesis using schedule_timers_same [of tzdb chat_id d] by simp
  next
    case False
    with snoc.prems x have "chat_id \<in> fst ` set calls" by auto
    from snoc.IH [OF this] False x show ?thesis
      by (simp add: schedule_timers_other)
  qed
qed

lemma ex_default_zone: "get_user_tz [DEFAULT_TZ] (store7 idx) = Inr (Zone DEFAULT_TZ)"
  by (simp add: get_user_tz_def store7_def dict_get_def ZoneInfo_def)

lemma ex_user_time: "get_user_time [DEFAULT_TZ] (store7 idx) = Inr time7"
  by (simp add: get_user_time_def ex_default_zone)
     (simp add: store7_def dict_get_def mk_time_def c_int_def time7_def)

text \<open>
  Claim C6. With an active queue and a valid time of day, \<^verbatim>\<open>schedule_daily_job\<close>
  leaves the jobs of other names, in their order, followed by the one new job of the
  chat: every older job of that name is removed before the new one is armed, and a
  second call with the same configuration leaves exactly that one job. After any
  sequence of calls, for any chats and configurations, in which the chat occurs, the
  chat has at most one live job, whatever the queue held before.
\<close>

theorem schedule_one_timer:
  "(job_queue w = Some js \<and> get_user_time tzdb data = Inr t \<longrightarrow>
      job_queue (snd (schedule_daily_job tzdb chat_id data w))
        = Some (filter (\<lambda>j. j_name j \<noteq> job_name chat_id) js @ [daily_job chat_id t])
      \<and> timers (snd (schedule_daily_job tzdb chat_id data
                 (snd (schedule_daily_job tzdb chat_id data w)))) chat_id
        = [daily_job chat_id t])
   \<and> (chat_id \<in> fst ` set calls \<longrightarrow>
        length (timers (fold (\<lambda>(c, d) w. snd (schedule_daily_job tzdb c d w)) calls w) chat_id)
          \<le> 1)"
proof (intro conjI impI)
  assume a: "job_queue w = Some js \<and> get_user_time tzdb data = Inr t"
  then show "job_queue (snd (schedule_daily_job tzdb chat_id data w))
        = Some (filter (\<lambda>j. j_name j \<noteq> job_name chat_id) js @ [daily_job chat_id t])"
    by (simp add: schedule_daily_job_ok)
  from a schedule_queue_kept [of w js tzdb chat_id data]
  obtain js' where "job_queue (snd (schedule_daily_job tzdb chat_id data w)) = Some js'"
    by blast
  with a show "timers (snd (schedule_daily_job tzdb chat_id data
                 (snd (schedule_daily_job tzdb chat_id data w)))) chat_id
        = [daily_job chat_id t]"
    by (simp add: schedule_timers_armed)
next
  assume "chat_id \<in> fst ` set calls"
  then show "length (timers (fold (\<lambda>(c, d) w. snd (schedule_daily_job tzdb c d w)) calls w) chat_id) \<le> 1"
    by (rule schedule_fold_timers)
qed

text \<open>The chat has its job armed; scheduling it again, once or twice, leaves one job.\<close>

theorem schedule_one_timer_witness:
  "job_queue (world7 2) = Some [daily_job 7 time7]
   \<and> get_user_time [DEFAULT_TZ] (store7 2) = Inr time7
   \<and> job_queue (snd (schedule_daily_job [DEFAULT_TZ] 7 (store7 2) (world7 2)))
       = Some [daily_job 7 time7]
   \<and> timers (snd (schedule_daily_job [DEFAULT_TZ] 7 (store7 2)
               (snd (schedule_daily_job [DEFAULT_TZ] 7 (store7 2) (world7 2))))) 7
       = [daily_job 7 time7]
   \<and> length (timers (fold (\<lambda>(c, d) w. snd (schedule_daily_job [DEFAULT_TZ] c d w))
                 [(7, store7 2), (7, store7 2)] (world7 2)) 7) \<le> 1"
proof -
  have q: "job_queue (world7 2) = Some [daily_job 7 time7]" by (simp add: world7_def)
  have m: "(7::int) \<in> fst ` set [(7, store7 2), (7, store7 2)]" by simp
  have f: "filter (\<lambda>j. j_name j \<noteq> job_name 7) [daily_job 7 time7] = []"
    by (simp add: daily_job_def)
  from schedule_one_timer [of "world7 2" "[daily_job 7 time7]" "[DEFAULT_TZ]" "store7 2" time7 7
      "[(7, store7 2), (7, store7 2)]"] q m f ex_user_time [of 2]
  show ?thesis by simp
qed

section \<open>Startup\<close>

lemma on_startup_loop_frame:
  "chat_data (snd (on_startup_loop tzdb items w)) = chat_data w"
proof (induction items arbitrary: w)
  case Nil
  then show ?case by simp
next
  case (Cons x items)
  obtain c d where x: "x = (c, d)" by (cases x)
  show ?case
  proof (cases "schedule_daily_job tzdb c d w")
    case (Pair e w1)
    with schedule_frame(1) [of tzdb c d w] have "chat_data w1 = chat_data w" by simp
    with Pair x Cons.IH [of w1] show ?thesis by (cases e) simp_all
  qed
qed

lemma on_startup_loop_other:
  "c \<notin> fst ` set items \<Longrightarrow> timers (snd (on_startup_loop tzdb items w)) c = timers w c"
proof (induction items arbitrary: w)
  case Nil
  then show ?case by simp
next
  case (Cons x items)
  obtain c' d where x: "x = (c', d)" by (cases x)
  with Cons.prems have ne: "c \<noteq> c'" and rest: "c \<notin> fst ` set items" by auto
  show ?case
  proof (cases "schedule_daily_job tzdb c' d w")
    case (Pair e w1)
    with schedule_timers_other [OF ne, of tzdb d w] have "timers w1 c = timers w c" by simp
    with Pair x Cons.IH [OF rest, of w1] show ?thesis by (cases e) simp_all
  qed
qed

lemma on_startup_loop_timers:
  assumes "fst (on_startup_loop tzdb items w) = None" and "job_queue w = Some js"
    and "distinct (map fst items)" and "(c, d) \<in> set items"
  shows "\<exists>t. get_user_time tzdb d = Inr t
           \<and> timers (snd (on_startup_loop tzdb items w)) c = [daily_job c t]"
  using assms
proof (induction items arbitrary: w js)
  case Nil
  then show ?case by simp
next
  case (Cons x items)
  obtain c' d' where x: "x = (c', d')" by (cases x)
  show ?case
  proof (cases rule: schedule_daily_job_cases [of w tzdb c' d'])
    case no_queue
    with Cons.prems show ?thesis by simp
  next
    case (error js' e)
    with Cons.prems x show ?thesis by simp
  next
    case (ok js' t)
    let ?w1 = "w\<lparr>job_queue :=
        Some (filter (\<lambda>j. j_name j \<noteq> job_name c') js' @ [daily_job c' t])\<rparr>"
    from ok x have run: "on_startup_loop tzdb (x # items) w = on_startup_loop tzdb items ?w1"
      by simp
    show ?thesis
    proof (cases "(c, d) = (c', d')")
      case True
      with Cons.prems x have "c \<notin> fst ` set items" by auto
      then have "timers (snd (on_startup_loop tzdb items ?w1)) c = timers ?w1 c"
        by (rule on_startup_loop_other)
      moreover have "timers ?w1 c' = [daily_job c' t]"
        by (simp add: timers_def get_jobs_by_name_def daily_job_def)
      ultimately show ?thesis using True ok run by simp
    next
      case False
      with Cons.prems x have mem: "(c, d) \<in> set items" by auto
      from Cons.prems run have "fst (on_startup_loop tzdb items ?w1) = None" by simp
      moreover have "job_queue ?w1 =
          Some (filter (\<lambda>j. j_name j \<noteq> job_name c') js' @ [daily_job c' t])" by simp
      moreover from Cons.prems have "distinct (map fst items)" by simp
      ultimately show ?thesis using Cons.IH mem run by metis
    qed
  qed
qed

lemma ex_on_startup:
  "on_startup [DEFAULT_TZ] (fresh_process (world7 idx))
     = (None, world7 idx)"
  by (simp add: on_startup_def fresh_process_def world7_def schedule_daily_job_ok [OF _ ex_user_time])

lemma on_startup_loop_ok:
  assumes "job_queue w = Some js"
    and "\<forall>(c, d) \<in> set items. \<exists>t. get_user_time tzdb d = Inr t"
  shows "fst (on_startup_loop tzdb items w) = None"
  using assms
proof (induction items arbitrary: w js)
  case Nil
  then show ?case by simp
next
  case (Cons x items)
  obtain c d where x: "x = (c, d)" by (cases x)
  with Cons.prems obtain t where t: "get_user_time tzdb d = Inr t" by auto
  let ?w1 = "w\<lparr>job_queue :=
      Some (filter (\<lambda>j. j_name j \<noteq> job_name c) js @ [daily_job c t])\<rparr>"
  from Cons.prems(1) t have run: "schedule_daily_job tzdb c d w = (None, ?w1)"
    by (rule schedule_daily_job_ok)
  have "job_queue ?w1 = Some (filter (\<lambda>j. j_name j \<noteq> job_name c) js @ [daily_job c t])"
    by simp
  moreover from Cons.prems(2) have "\<forall>(c, d) \<in> set items. \<exists>t. get_user_time tzdb d = Inr t"
    by simp
  ultimately have "fst (on_startup_loop tzdb items ?w1) = None" by (rule Cons.IH)
  with x run show ?case by simp
qed

text \<open>
  Claim C2, as the code has it. \<^verbatim>\<open>on_startup\<close> does not read the cursor: when the job
  queue is active and every stored dictionary gives a valid time of day, the loop ends
  without an error, the stored data are unchanged, and every entry of \<^verbatim>\<open>chat_data\<close>
  has exactly one live job afterwards, armed at its time of day, whether its cursor is
  inside the catalog or not. (The chat ids of a dictionary are distinct.)
\<close>

theorem startup_schedules_every_entry:
  assumes "job_queue w = Some js" and "distinct (map fst (chat_data w))"
    and "\<forall>(c, d) \<in> set (chat_data w). \<exists>t. get_user_time tzdb d = Inr t"
  shows "fst (on_startup tzdb w) = None
     \<and> chat_data (snd (on_startup tzdb w)) = chat_data w
     \<and> (\<forall>(c, d) \<in> set (chat_data w). \<exists>t. get_user_time tzdb d = Inr t
           \<and> timers (snd (on_startup tzdb w)) c = [daily_job c t])"
proof (intro conjI ballI)
  from assms(1,3) show ok: "fst (on_startup tzdb w) = None"
    unfolding on_startup_def by (rule on_startup_loop_ok)
  show "chat_data (snd (on_startup tzdb w)) = chat_data w"
    by (simp add: on_startup_def on_startup_loop_frame)
  fix x assume x: "x \<in> set (chat_data w)"
  obtain c d where cd: "x = (c, d)" by (cases x)
  from ok have "fst (on_startup_loop tzdb (chat_data w) w) = None"
    by (simp add: on_startup_def)
  from on_startup_loop_timers [OF this assms(1,2)] x cd
  have "\<exists>t. get_user_time tzdb d = Inr t
           \<and> timers (snd (on_startup_loop tzdb (chat_data w) w)) c = [daily_job c t]"
    by simp
  with cd show "case x of (c, d) \<Rightarrow> \<exists>t. get_user_time tzdb d = Inr t
           \<and> timers (snd (on_startup tzdb w)) c = [daily_job c t]"
    by (simp add: on_startup_def)
qed

text \<open>The recovery case of the specification: one subscriber at cursor 1 of 5.\<close>

theorem startup_schedules_every_entry_witness:
  "job_queue (fresh_process (world7 1)) = Some []
   \<and> chat_data (fresh_process (world7 1)) = [(7, store7 1)]
   \<and> get_user_time [DEFAULT_TZ] (store7 1) = Inr time7
   \<and> fst (on_startup [DEFAULT_TZ] (fresh_process (world7 1))) = None
   \<and> timers (snd (on_startup [DEFAULT_TZ] (fresh_process (world7 1)))) 7 = [daily_job 7 time7]"
proof -
  have q: "job_queue (fresh_process (world7 1)) = Some []"
    by (simp add: fresh_process_def world7_def)
  have m: "chat_data (fresh_process (world7 1)) = [(7, store7 1)]"
    by (simp add: fresh_process_def world7_def)
  have d: "distinct (map fst (chat_data (fresh_process (world7 1))))"
    by (simp add: m)
  have v: "\<forall>(c, d) \<in> set (chat_data (fresh_process (world7 1))).
      \<exists>t. get_user_time [DEFAULT_TZ] d = Inr t"
    by (simp add: m ex_user_time)
  from startup_schedules_every_entry [OF q d v] m ex_user_time [of 1] q
  show ?thesis by simp
qed

text \<open>
  Claim C2 as stated fails: a process that starts with a subscriber at cursor 5 of a
  catalog of five, who is completed, arms a job for that subscriber.
\<close>

theorem startup_rearms_completed:
  "cursor (fresh_process (world7 5)) 7 = Some (PInt 5)
   \<and> \<not> 5 < int (length catalog5)
   \<and> timers (fresh_process (world7 5)) 7 = []
   \<and> timers (snd (on_startup [DEFAULT_TZ] (fresh_process (world7 5)))) 7 = [daily_job 7 time7]"
  by (simp add: ex_on_startup)
     (simp add: fresh_process_def world7_def cursor_def store7_def timers_def
        get_jobs_by_name_def catalog5_def daily_job_def)

section \<open>Resolving the time zone\<close>

text \<open>
  Claim C7. On a system whose time zone database knows the default zone,
  \<^verbatim>\<open>get_user_tz\<close> returns a zone for every dictionary and never raises: the zone of the
  stored name when the name is a string the database knows, the default zone when the
  name is absent, unknown, malformed or no string at all.
\<close>

theorem get_user_tz_total:
  assumes "DEFAULT_TZ \<in> set tzdb"
  shows "get_user_tz tzdb data =
     Inr (Zone (case map_of data ''tz'' of
                  Some (PStr s) \<Rightarrow> if s \<in> set tzdb then s else DEFAULT_TZ
                | _ \<Rightarrow> DEFAULT_TZ))"
  using assms
  by (simp add: get_user_tz_def dict_get_def ZoneInfo_def split: option.splits pyval.splits)

text \<open>A known name, an unknown one, a number in place of the name, and no name.\<close>

theorem get_user_tz_total_witness:
  "DEFAULT_TZ \<in> set [ascii ''UTC'', DEFAULT_TZ]
   \<and> get_user_tz [ascii ''UTC'', DEFAULT_TZ] [(''tz'', PStr (ascii ''UTC''))]
       = Inr (Zone (ascii ''UTC''))
   \<and> get_user_tz [ascii ''UTC'', DEFAULT_TZ] [(''tz'', PStr (ascii ''Mars/Olympus''))]
       = Inr (Zone DEFAULT_TZ)
   \<and> get_user_tz [ascii ''UTC'', DEFAULT_TZ] [(''tz'', PInt 3)] = Inr (Zone DEFAULT_TZ)
   \<and> get_user_tz [ascii ''UTC'', DEFAULT_TZ] [] = Inr (Zone DEFAULT_TZ)"
proof -
  have d: "DEFAULT_TZ \<in> set [ascii ''UTC'', DEFAULT_TZ]" by simp
  have n: "ascii ''Mars/Olympus'' \<notin> set [ascii ''UTC'', DEFAULT_TZ]"
    by (simp add: ascii_def DEFAULT_TZ_def)
  from get_user_tz_total [OF d, of "[(''tz'', PStr (ascii ''UTC''))]"]
    get_user_tz_total [OF d, of "[(''tz'', PStr (ascii ''Mars/Olympus''))]"]
    get_user_tz_total [OF d, of "[(''tz'', PInt 3)]"]
    get_user_tz_total [OF d, of "[]"] n
  show ?thesis by simp
qed

section \<open>Reading the messages file\<close>

lemma linebreak_is_space: "is_linebreak c \<Longrightarrow> is_space c"
  by (auto simp: is_linebreak_def is_space_def)

lemma dropWhile_all: "dropWhile P xs = [] \<longleftrightarrow> (\<forall>x\<in>set xs. P x)"
  by (induction xs) auto

lemma dropWhile_twice: "(\<forall>x\<in>set (dropWhile P xs). P x) \<longleftrightarrow> (\<forall>x\<in>set xs. P x)"
  by (induction xs) auto

lemma strip_empty_iff: "strip s = [] \<longleftrightarrow> (\<forall>c\<in>set s. is_space c)"
proof -
  have "strip s = [] \<longleftrightarrow> dropWhile is_space (rev (dropWhile is_space s)) = []"
    by (simp only: strip_def rev_is_Nil_conv)
  also have "\<dots> \<longleftrightarrow> (\<forall>c\<in>set (dropWhile is_space s). is_space c)"
    by (simp only: dropWhile_all set_rev)
  also have "\<dots> \<longleftrightarrow> (\<forall>c\<in>set s. is_space c)"
    by (rule dropWhile_twice)
  finally show ?thesis .
qed

lemma splitlines_from_blank:
  "(\<forall>line\<in>set (splitlines_from cur s). \<forall>c\<in>set line. is_space c)
     \<longleftrightarrow> (\<forall>c\<in>set cur \<union> set s. is_space c)"
proof (induction cur s rule: splitlines_from.induct)
  case (1 cur)
  then show ?case by simp
next
  case (2 cur c)
  then show ?case by (auto dest: linebreak_is_space)
next
  case (3 cur c d s)
  have cr: "is_space 13" and lf: "is_space 10" by (simp_all add: is_space_def)
  show ?case
  proof (cases "c = 13 \<and> d = 10")
    case True
    with "3.IH"(1) cr lf show ?thesis by auto
  next
    case False
    show ?thesis
    proof (cases "is_linebreak c")
      case True
      with False "3.IH"(2) linebreak_is_space [of c] show ?thesis by auto
    next
      case nb: False
      with False "3.IH"(3) show ?thesis by auto
    qed
  qed
qed

lemma no_nonblank_line_iff:
  "(\<forall>line\<in>set (splitlines text). \<forall>c\<in>set line. is_space c) \<longleftrightarrow> (\<forall>c\<in>set text. is_space c)"
  by (simp add: splitlines_def splitlines_from_blank)

lemma load_messages_read:
  "p_exists path = Inr True \<Longrightarrow> p_read_text path = Inr content \<Longrightarrow>
     load_messages path =
       (if \<forall>line\<in>set (splitlines content). \<forall>c\<in>set line. is_space c then Inl ValueError
        else Inr (map strip (filter (\<lambda>line. strip line \<noteq> []) (splitlines content))))"
  by (auto simp: load_messages_def Let_def filter_empty_conv strip_empty_iff)

lemma load_messages_unread:
  "p_exists path = Inl e \<Longrightarrow> load_messages path = Inl e"
  "p_exists path = Inr False \<Longrightarrow> load_messages path = Inl FileNotFoundError"
  "p_exists path = Inr True \<Longrightarrow> p_read_text path = Inl e \<Longrightarrow> load_messages path = Inl e"
  by (simp_all add: load_messages_def)

text \<open>
  Claim C8, as the code has it. \<^verbatim>\<open>load_messages\<close> raises exactly when the check of the
  path raises or finds no file, when reading the file raises, or when none of the lines
  read has a character that is not white space (which is to say that the whole text is
  white space). When it returns, the file was there and was read, the list is not empty,
  no entry is the empty string, and the entries are the stripped non-blank lines in the
  order of the file.
\<close>

theorem load_messages_nonempty:
  "((\<exists>e. load_messages path = Inl e) \<longleftrightarrow>
      (\<exists>e. p_exists path = Inl e) \<or> p_exists path = Inr False
      \<or> (\<exists>e. p_read_text path = Inl e)
      \<or> (\<exists>text. p_read_text path = Inr text
            \<and> (\<forall>line\<in>set (splitlines text). \<forall>c\<in>set line. is_space c)))
   \<and> (\<forall>text. (\<forall>line\<in>set (splitlines text). \<forall>c\<in>set line. is_space c)
                 \<longleftrightarrow> (\<forall>c\<in>set text. is_space c))
   \<and> (\<forall>msgs. load_messages path = Inr msgs \<longrightarrow>
         msgs \<noteq> [] \<and> (\<forall>m\<in>set msgs. m \<noteq> [])
         \<and> (\<exists>text. p_exists path = Inr True \<and> p_read_text path = Inr text
               \<and> msgs = map strip (filter (\<lambda>line. strip line \<noteq> []) (splitlines text))))"
proof -
  have b: "\<forall>text. (\<forall>line\<in>set (splitlines text). \<forall>c\<in>set line. is_space c)
                 \<longleftrightarrow> (\<forall>c\<in>set text. is_space c)"
    by (simp add: no_nonblank_line_iff)
  show ?thesis
  proof (cases "p_exists path")
    case (Inl e)
    then show ?thesis using b by (simp add: load_messages_unread)
  next
    case (Inr there)
    show ?thesis
    proof (cases there)
      case False
      with Inr show ?thesis using b by (simp add: load_messages_unread)
    next
      case True
      with Inr have ex: "p_exists path = Inr True" by simp
      show ?thesis
      proof (cases "p_read_text path")
        case (Inl e)
        with ex show ?thesis using b by (simp add: load_messages_unread)
      next
        case rd: (Inr content)
        show ?thesis
        proof (cases "\<forall>line\<in>set (splitlines content). \<forall>c\<in>set line. is_space c")
          case True
          with ex rd show ?thesis using b by (simp add: load_messages_read)
        next
          case False
          then have ne: "filter (\<lambda>line. strip line \<noteq> []) (splitlines content) \<noteq> []"
            by (simp add: filter_empty_conv strip_empty_iff)
          from False ex rd have run: "load_messages path =
              Inr (map strip (filter (\<lambda>line. strip line \<noteq> []) (splitlines content)))"
            by (simp add: load_messages_read)
          have a: "(\<exists>e. load_messages path = Inl e) \<longleftrightarrow>
              (\<exists>e. p_exists path = Inl e) \<or> p_exists path = Inr False
              \<or> (\<exists>e. p_read_text path = Inl e)
              \<or> (\<exists>text. p_read_text path = Inr text
                    \<and> (\<forall>line\<in>set (splitlines text). \<forall>c\<in>set line. is_space c))"
            using False ex rd by (simp add: run)
          have c: "\<forall>msgs. load_messages path = Inr msgs \<longrightarrow>
              msgs \<noteq> [] \<and> (\<forall>m\<in>set msgs. m \<noteq> [])
              \<and> (\<exists>text. p_exists path = Inr True \<and> p_read_text path = Inr text
                    \<and> msgs = map strip (filter (\<lambda>line. strip line \<noteq> []) (splitlines text)))"
            using ne ex rd by (auto simp: run)
          from a b c show ?thesis by blast
        qed
      qed
    qed
  qed
qed

lemma ex_splitlines: "splitlines messages_txt = [ascii '' one '', [], ascii ''two'']"
  by (simp add: messages_txt_def splitlines_def ascii_def is_linebreak_def)

lemma ex_strip:
  "strip (ascii '' one '') = ascii ''one''" "strip [] = []" "strip (ascii ''two'') = ascii ''two''"
  by (simp_all add: strip_def ascii_def is_space_def)

lemma ex_load: "load_messages messages_file = Inr [ascii ''one'', ascii ''two'']"
proof -
  have ne: "ascii ''one'' \<noteq> []" "ascii ''two'' \<noteq> []" by (simp_all add: ascii_def)
  show ?thesis
    unfolding load_messages_def messages_file_def by (simp add: ex_splitlines ex_strip ne)
qed

text \<open>No file, a file of blank lines, a file that cannot be decoded, and a file with two
  messages.\<close>

theorem load_messages_nonempty_witness:
  "load_messages missing_file = Inl FileNotFoundError
   \<and> load_messages blank_file = Inl ValueError
   \<and> load_messages cp1251_file = Inl UnicodeDecodeError
   \<and> load_messages messages_file = Inr [ascii ''one'', ascii ''two'']"
proof -
  have a: "load_messages missing_file = Inl FileNotFoundError"
    by (simp add: load_messages_def missing_file_def)
  have u: "load_messages cp1251_file = Inl UnicodeDecodeError"
    by (simp add: load_messages_def cp1251_file_def)
  have sp: "\<forall>c\<in>set blank_txt. is_space c" by (simp add: blank_txt_def is_space_def)
  then have ln: "\<forall>line\<in>set (splitlines blank_txt). \<forall>c\<in>set line. is_space c"
    by (simp only: no_nonblank_line_iff)
  have ex: "p_exists blank_file = Inr True" and rd: "p_read_text blank_file = Inr blank_txt"
    by (simp_all add: blank_file_def)
  from load_messages_nonempty [of blank_file]
  have "(\<exists>e. load_messages blank_file = Inl e) \<longleftrightarrow>
      (\<exists>e. p_exists blank_file = Inl e) \<or> p_exists blank_file = Inr False
      \<or> (\<exists>e. p_read_text blank_file = Inl e)
      \<or> (\<exists>text. p_read_text blank_file = Inr text
            \<and> (\<forall>line\<in>set (splitlines text). \<forall>c\<in>set line. is_space c))"
    by (rule conjunct1)
  moreover from rd ln have "\<exists>text. p_read_text blank_file = Inr text
            \<and> (\<forall>line\<in>set (splitlines text). \<forall>c\<in>set line. is_space c)"
    by blast
  ultimately have raises: "\<exists>e. load_messages blank_file = Inl e" by blast
  have b: "load_messages blank_file = Inl ValueError"
    unfolding load_messages_read [OF ex rd] by (rule if_P) (rule ln)
  from raises a b u ex_load show ?thesis by simp
qed

text \<open>
  Claim C8 as stated fails: a catalog saved in another encoding is there, it is not
  missing and reading yields no text of blank lines, yet \<^verbatim>\<open>load_messages\<close> raises, with
  the error of the read.
\<close>

theorem load_messages_unreadable:
  "p_exists cp1251_file = Inr True
   \<and> p_read_text cp1251_file = Inl UnicodeDecodeError
   \<and> load_messages cp1251_file = Inl UnicodeDecodeError"
  by (simp add: load_messages_def cp1251_file_def)

section \<open>Commands\<close>

lemma send_messageD:
  "send_message net c t w = (e, w') \<Longrightarrow> chat_data w' = chat_data w \<and> job_queue w' = job_queue w"
  by (auto simp: send_message_def split: if_splits)

lemma reply_textD:
  "reply_text net c t w = (e, w') \<Longrightarrow> chat_data w' = chat_data w \<and> job_queue w' = job_queue w"
  unfolding reply_text_def by (rule send_messageD)

lemma reply_text_frame:
  "chat_data (snd (reply_text net c t w)) = chat_data w"
  "job_queue (snd (reply_text net c t w)) = job_queue w"
  by (simp_all add: reply_text_def send_message_frame)

lemma scheduleD:
  "schedule_daily_job tzdb c d w = (e, w') \<Longrightarrow> chat_data w' = chat_data w"
  using schedule_frame(1) [of tzdb c d w] by simp

lemma map_of_context_chat_data:
  "context_chat_data c w = (d, w0) \<Longrightarrow>
     map_of (chat_data w0) = (map_of (chat_data w))(c \<mapsto> d)
     \<and> d = (case map_of (chat_data w) c of None \<Rightarrow> [] | Some d \<Rightarrow> d)
     \<and> job_queue w0 = job_queue w"
  by (auto simp: context_chat_data_def map_add_def fun_eq_iff split: option.splits)

lemma start_chat_data:
  "map_of (chat_data (snd (start tzdb net chat_id w))) =
     (map_of (chat_data w))(chat_id \<mapsto>
        setdefault (setdefault (setdefault (setdefault
          (case map_of (chat_data w) chat_id of None \<Rightarrow> [] | Some d \<Rightarrow> d)
          ''tz'' (PStr DEFAULT_TZ)) ''hour'' (PInt DEFAULT_TIME_hour))
          ''minute'' (PInt DEFAULT_TIME_minute)) ''index'' (PInt 0))"
proof -
  obtain d0 w0 where c: "context_chat_data chat_id w = (d0, w0)"
    by (cases "context_chat_data chat_id w")
  note m = map_of_context_chat_data [OF c]
  let ?d4 = "setdefault (setdefault (setdefault (setdefault d0
          ''tz'' (PStr DEFAULT_TZ)) ''hour'' (PInt DEFAULT_TIME_hour))
          ''minute'' (PInt DEFAULT_TIME_minute)) ''index'' (PInt 0)"
  let ?w1 = "w0\<lparr>chat_data := setitem (chat_data w0) chat_id ?d4\<rparr>"
  have "chat_data (snd (start tzdb net chat_id w)) = chat_data ?w1"
    using c
    by (auto simp: start_def Let_def split: prod.splits option.splits sum.splits
        dest!: scheduleD simp: reply_text_frame)
  with m show ?thesis by (simp add: map_of_setitem)
qed

text \<open>
  Claim C10. After \<^verbatim>\<open>start\<close> for a chat, whatever the outcome of the scheduling and
  of the reply, every field the chat's dictionary had keeps its value (the time zone,
  the hour, the minute and the cursor among them); a field that was absent has the
  default of lines 109 to 112 if it is one of those four and stays absent otherwise; and
  the dictionaries of the other chats are as before.
\<close>

theorem start_keeps_fields:
  "(stored w chat_id k = Some v \<longrightarrow>
      stored (snd (start tzdb net chat_id w)) chat_id k = Some v)
   \<and> (stored w chat_id k = None \<longrightarrow>
        stored (snd (start tzdb net chat_id w)) chat_id k
          = map_of [(''tz'', PStr DEFAULT_TZ), (''hour'', PInt DEFAULT_TIME_hour),
                    (''minute'', PInt DEFAULT_TIME_minute), (''index'', PInt 0)] k)
   \<and> (c \<noteq> chat_id \<longrightarrow>
        map_of (chat_data (snd (start tzdb net chat_id w))) c = map_of (chat_data w) c)"
  by (simp add: stored_def start_chat_data map_of_setdefault split: option.splits)

text \<open>A subscriber at cursor 3 with its own zone and hour and no minute: \<^verbatim>\<open>start\<close>
  keeps the three fields and adds the default minute.\<close>

theorem start_keeps_fields_witness:
  "stored world9 9 ''tz'' = Some (PStr (ascii ''UTC''))
   \<and> stored (snd (start [DEFAULT_TZ] net_up 9 world9)) 9 ''tz'' = Some (PStr (ascii ''UTC''))
   \<and> stored world9 9 ''index'' = Some (PInt 3)
   \<and> stored (snd (start [DEFAULT_TZ] net_up 9 world9)) 9 ''index'' = Some (PInt 3)
   \<and> stored world9 9 ''minute'' = None
   \<and> stored (snd (start [DEFAULT_TZ] net_up 9 world9)) 9 ''minute''
       = Some (PInt DEFAULT_TIME_minute)"
proof -
  have a: "stored world9 9 ''tz'' = Some (PStr (ascii ''UTC''))"
    and b: "stored world9 9 ''index'' = Some (PInt 3)"
    and c: "stored world9 9 ''minute'' = None"
    by (simp_all add: stored_def world9_def store9_def)
  from start_keeps_fields [of world9 9 "''tz''" "PStr (ascii ''UTC'')" "[DEFAULT_TZ]" net_up 0]
    start_keeps_fields [of world9 9 "''index''" "PInt 3" "[DEFAULT_TZ]" net_up 0]
    start_keeps_fields [of world9 9 "''minute''" "PInt 0" "[DEFAULT_TZ]" net_up 0]
    a b c
  show ?thesis by simp
qed

section \<open>The invariant of the reachable states\<close>

lemma cursor_ok_empty: "cursor_ok MESSAGES []"
  by (simp add: cursor_ok_def dict_get_def)

lemma cursor_ok_setitem_other:
  "k \<noteq> ''index'' \<Longrightarrow> cursor_ok MESSAGES (setitem d k v) = cursor_ok MESSAGES d"
  by (simp add: cursor_ok_def dict_get_def map_of_setitem)

lemma cursor_ok_setdefault_other:
  "k \<noteq> ''index'' \<Longrightarrow> cursor_ok MESSAGES (setdefault d k v) = cursor_ok MESSAGES d"
  by (simp add: cursor_ok_def dict_get_def map_of_setdefault)

lemma cursor_ok_setdefault_index:
  "cursor_ok MESSAGES d \<Longrightarrow> cursor_ok MESSAGES (setdefault d ''index'' (PInt 0))"
  by (simp add: cursor_ok_def dict_get_def map_of_setdefault split: option.splits)

lemma cursor_ok_reset: "cursor_ok MESSAGES (setitem d ''index'' (PInt 0))"
  by (simp add: cursor_ok_def dict_get_def map_of_setitem)

lemma cursor_ok_advance:
  "0 \<le> idx \<Longrightarrow> idx < int (length MESSAGES) \<Longrightarrow>
     cursor_ok MESSAGES (setitem d ''index'' (PInt (idx + 1)))"
  by (simp add: cursor_ok_def dict_get_def map_of_setitem)

lemma stores_ok_lookup:
  "stores_ok MESSAGES w \<Longrightarrow>
     cursor_ok MESSAGES (case map_of (chat_data w) c of None \<Rightarrow> [] | Some d \<Rightarrow> d)"
  by (auto simp: stores_ok_def cursor_ok_empty split: option.splits)

lemma stores_ok_update:
  "stores_ok MESSAGES w \<Longrightarrow> cursor_ok MESSAGES d \<Longrightarrow>
     map_of (chat_data w') = (map_of (chat_data w))(c \<mapsto> d) \<Longrightarrow> stores_ok MESSAGES w'"
  by (simp add: stores_ok_def)

lemma stores_ok_same:
  "stores_ok MESSAGES w \<Longrightarrow> chat_data w' = chat_data w \<Longrightarrow> stores_ok MESSAGES w'"
  by (simp add: stores_ok_def)

lemma names_distinct_same:
  "names_distinct w \<Longrightarrow> job_queue w' = job_queue w \<Longrightarrow> names_distinct w'"
  by (simp add: names_distinct_def)

lemma names_distinct_cancel:
  "names_distinct w \<Longrightarrow> names_distinct (w\<lparr>job_queue := cancel_existing_job (job_queue w) c\<rparr>)"
  by (cases "job_queue w")
     (simp_all add: names_distinct_def cancel_existing_job_None cancel_existing_job_Some
        distinct_map_filter)

lemma names_distinct_schedule:
  assumes "names_distinct w"
  shows "names_distinct (snd (schedule_daily_job tzdb c d w))"
proof (cases rule: schedule_daily_job_cases [of w tzdb c d])
  case no_queue
  with assms show ?thesis by simp
next
  case (error js e)
  with assms show ?thesis by (simp add: names_distinct_def distinct_map_filter)
next
  case (ok js t)
  with assms show ?thesis
    by (auto simp: names_distinct_def distinct_map_filter daily_job_def)
qed

lemma names_distinct_timers:
  assumes "names_distinct w"
  shows "length (timers w c) \<le> 1"
proof (cases "job_queue w")
  case None
  then show ?thesis by (simp add: timers_def)
next
  case (Some js)
  with assms have "distinct (map j_name js)" by (simp add: names_distinct_def)
  then have "length (filter (\<lambda>j. j_name j = n) js) \<le> 1" for n
  proof (induction js)
    case Nil
    then show ?case by simp
  next
    case (Cons j js)
    show ?case
    proof (cases "j_name j = n")
      case True
      have "\<forall>x\<in>set js. j_name x \<noteq> n"
      proof
        fix x assume "x \<in> set js"
        then have "j_name x \<in> set (map j_name js)" by simp
        with Cons.prems True show "j_name x \<noteq> n" by auto
      qed
      then have "filter (\<lambda>j. j_name j = n) js = []"
        by (simp add: filter_empty_conv)
      with True show ?thesis by simp
    next
      case False
      with Cons show ?thesis by simp
    qed
  qed
  with Some show ?thesis by (simp add: timers_def get_jobs_by_name_def)
qed

text \<open>The commands.\<close>

lemma schedule_then_reply_queue:
  "job_queue (snd (case schedule_daily_job tzdb c d w of
                     (Some e, w2) \<Rightarrow> (Some e, w2)
                   | (None, w2) \<Rightarrow> reply_text net c' t w2))
     = job_queue (snd (schedule_daily_job tzdb c d w))"
  by (simp add: reply_text_frame split: prod.splits option.splits)

lemma schedule_then_reply_data:
  "chat_data (snd (case schedule_daily_job tzdb c d w of
                     (Some e, w2) \<Rightarrow> (Some e, w2)
                   | (None, w2) \<Rightarrow> reply_text net c' t w2))
     = chat_data w"
  using schedule_frame(1) [of tzdb c d w]
  by (auto simp: reply_text_frame split: prod.splits option.splits)

lemma start_queue:
  "\<exists>d w1. job_queue w1 = job_queue w
     \<and> job_queue (snd (start tzdb net chat_id w)) = job_queue (snd (schedule_daily_job tzdb chat_id d w1))"
proof -
  obtain d0 w0 where c: "context_chat_data chat_id w = (d0, w0)"
    by (cases "context_chat_data chat_id w")
  note m = map_of_context_chat_data [OF c]
  let ?d4 = "setdefault (setdefault (setdefault (setdefault d0
          ''tz'' (PStr DEFAULT_TZ)) ''hour'' (PInt DEFAULT_TIME_hour))
          ''minute'' (PInt DEFAULT_TIME_minute)) ''index'' (PInt 0)"
  let ?w1 = "w0\<lparr>chat_data := setitem (chat_data w0) chat_id ?d4\<rparr>"
  have "job_queue (snd (start tzdb net chat_id w))
      = job_queue (snd (schedule_daily_job tzdb chat_id ?d4 ?w1))"
    using c
    by (auto simp: start_def Let_def reply_text_frame
        split: prod.splits option.splits sum.splits)
  moreover from m have "job_queue ?w1 = job_queue w" by simp
  ultimately show ?thesis by blast
qed

lemma inv_start:
  assumes "stores_ok MESSAGES w" and "names_distinct w"
  shows "stores_ok MESSAGES (snd (start tzdb net chat_id w))"
    and "names_distinct (snd (start tzdb net chat_id w))"
proof -
  from stores_ok_lookup [OF assms(1), of chat_id]
  have "cursor_ok MESSAGES (setdefault (setdefault (setdefault (setdefault
          (case map_of (chat_data w) chat_id of None \<Rightarrow> [] | Some d \<Rightarrow> d)
          ''tz'' (PStr DEFAULT_TZ)) ''hour'' (PInt DEFAULT_TIME_hour))
          ''minute'' (PInt DEFAULT_TIME_minute)) ''index'' (PInt 0))"
    by (simp add: cursor_ok_setdefault_index cursor_ok_setdefault_other)
  with assms(1) show "stores_ok MESSAGES (snd (start tzdb net chat_id w))"
    by (rule stores_ok_update) (rule start_chat_data)
next
  from start_queue [of w tzdb net chat_id] obtain d w1 where
    q: "job_queue w1 = job_queue w"
    and r: "job_queue (snd (start tzdb net chat_id w))
        = job_queue (snd (schedule_daily_job tzdb chat_id d w1))"
    by blast
  from assms(2) q have "names_distinct w1" by (simp add: names_distinct_def)
  then have "names_distinct (snd (schedule_daily_job tzdb chat_id d w1))"
    by (rule names_distinct_schedule)
  with r show "names_distinct (snd (start tzdb net chat_id w))"
    by (simp add: names_distinct_def)
qed

lemma inv_reply:
  assumes "stores_ok MESSAGES w" and "names_distinct w"
  shows "stores_ok MESSAGES (snd (reply_text net c t w))"
    and "names_distinct (snd (reply_text net c t w))"
  using assms by (simp_all add: stores_ok_def names_distinct_def reply_text_frame)

lemma inv_schedule_reply:
  assumes "stores_ok MESSAGES w" and "names_distinct w" and "cursor_ok MESSAGES d'"
    and "map_of (chat_data w1) = (map_of (chat_data w))(c \<mapsto> d')"
    and "job_queue w1 = job_queue w"
  shows "stores_ok MESSAGES (snd (case schedule_daily_job tzdb c d w1 of
                     (Some e, w2) \<Rightarrow> (Some e, w2)
                   | (None, w2) \<Rightarrow> reply_text net c t w2))"
    and "names_distinct (snd (case schedule_daily_job tzdb c d w1 of
                     (Some e, w2) \<Rightarrow> (Some e, w2)
                   | (None, w2) \<Rightarrow> reply_text net c t w2))"
proof -
  from assms(1,3,4) have s1: "stores_ok MESSAGES w1" by (rule stores_ok_update)
  then show "stores_ok MESSAGES (snd (case schedule_daily_job tzdb c d w1 of
                     (Some e, w2) \<Rightarrow> (Some e, w2)
                   | (None, w2) \<Rightarrow> reply_text net c t w2))"
    by (rule stores_ok_same) (rule schedule_then_reply_data)
  from assms(2,5) have "names_distinct w1" by (simp add: names_distinct_def)
  then have "names_distinct (snd (schedule_daily_job tzdb c d w1))"
    by (rule names_distinct_schedule)
  then show "names_distinct (snd (case schedule_daily_job tzdb c d w1 of
                     (Some e, w2) \<Rightarrow> (Some e, w2)
                   | (None, w2) \<Rightarrow> reply_text net c t w2))"
    by (rule names_distinct_same) (rule schedule_then_reply_queue)
qed

lemma inv_settime:
  assumes "stores_ok MESSAGES w" and "names_distinct w"
  shows "stores_ok MESSAGES (snd (settime tzdb py_int net chat_id args w))
     \<and> names_distinct (snd (settime tzdb py_int net chat_id args w))"
proof (cases "args = [] \<or> length (split (hd args) 58) \<noteq> 2")
  case True
  with inv_reply [OF assms] show ?thesis by (simp add: settime_def Let_def)
next
  case False
  show ?thesis
  proof (cases "parse_hh_mm py_int (hd args)")
    case None
    with False inv_reply [OF assms] show ?thesis by (simp add: settime_def Let_def)
  next
    case (Some p)
    obtain hh mm where p: "p = (hh, mm)" by (cases p)
    obtain d0 w0 where c: "context_chat_data chat_id w = (d0, w0)"
      by (cases "context_chat_data chat_id w")
    note m = map_of_context_chat_data [OF c]
    let ?d2 = "setitem (setitem d0 ''hour'' (PInt hh)) ''minute'' (PInt mm)"
    let ?w1 = "w0\<lparr>chat_data := setitem (chat_data w0) chat_id ?d2\<rparr>"
    from stores_ok_lookup [OF assms(1), of chat_id] m
    have ok: "cursor_ok MESSAGES ?d2" by (simp add: cursor_ok_setitem_other)
    from m have upd: "map_of (chat_data ?w1) = (map_of (chat_data w))(chat_id \<mapsto> ?d2)"
      and q: "job_queue ?w1 = job_queue w"
      by (simp_all add: map_of_setitem)
    from inv_schedule_reply [OF assms ok upd q] False Some p c show ?thesis
      by (simp add: settime_def Let_def)
  qed
qed

lemma inv_settz:
  assumes "stores_ok MESSAGES w" and "names_distinct w"
  shows "stores_ok MESSAGES (snd (settz tzdb net chat_id args w))
     \<and> names_distinct (snd (settz tzdb net chat_id args w))"
proof (cases "args = []")
  case True
  with inv_reply [OF assms] show ?thesis by (simp add: settz_def Let_def)
next
  case False
  show ?thesis
  proof (cases "ZoneInfo tzdb (PStr (hd args))")
    case (Inl e)
    with False inv_reply [OF assms] show ?thesis by (simp add: settz_def Let_def)
  next
    case (Inr z)
    obtain d0 w0 where c: "context_chat_data chat_id w = (d0, w0)"
      by (cases "context_chat_data chat_id w")
    note m = map_of_context_chat_data [OF c]
    let ?d1 = "setitem d0 ''tz'' (PStr (hd args))"
    let ?w1 = "w0\<lparr>chat_data := setitem (chat_data w0) chat_id ?d1\<rparr>"
    from stores_ok_lookup [OF assms(1), of chat_id] m
    have ok: "cursor_ok MESSAGES ?d1" by (simp add: cursor_ok_setitem_other)
    from m have upd: "map_of (chat_data ?w1) = (map_of (chat_data w))(chat_id \<mapsto> ?d1)"
      and q: "job_queue ?w1 = job_queue w"
      by (simp_all add: map_of_setitem)
    from inv_schedule_reply [OF assms ok upd q] False Inr c show ?thesis
      by (simp add: settz_def Let_def)
  qed
qed

lemma inv_resume:
  assumes "stores_ok MESSAGES w" and "names_distinct w"
  shows "stores_ok MESSAGES (snd (resume tzdb net chat_id w))
     \<and> names_distinct (snd (resume tzdb net chat_id w))"
proof -
  obtain d0 w0 where c: "context_chat_data chat_id w = (d0, w0)"
    by (cases "context_chat_data chat_id w")
  note m = map_of_context_chat_data [OF c]
  from stores_ok_lookup [OF assms(1), of chat_id] m
  have ok: "cursor_ok MESSAGES d0" by simp
  from m have upd: "map_of (chat_data w0) = (map_of (chat_data w))(chat_id \<mapsto> d0)"
    and q: "job_queue w0 = job_queue w"
    by simp_all
  from inv_schedule_reply [OF assms ok upd q] c show ?thesis
    by (simp add: resume_def Let_def)
qed

lemma inv_reset:
  assumes "stores_ok MESSAGES w" and "names_distinct w"
  shows "stores_ok MESSAGES (snd (reset net chat_id w))
     \<and> names_distinct (snd (reset net chat_id w))"
proof -
  obtain d0 w0 where c: "context_chat_data chat_id w = (d0, w0)"
    by (cases "context_chat_data chat_id w")
  note m = map_of_context_chat_data [OF c]
  let ?w1 = "w0\<lparr>chat_data := setitem (chat_data w0) chat_id (setitem d0 ''index'' (PInt 0))\<rparr>"
  from m have upd: "map_of (chat_data ?w1)
      = (map_of (chat_data w))(chat_id \<mapsto> setitem d0 ''index'' (PInt 0))"
    by (simp add: map_of_setitem)
  from assms(1) cursor_ok_reset upd have "stores_ok MESSAGES ?w1" by (rule stores_ok_update)
  moreover from assms(2) m have "names_distinct ?w1" by (simp add: names_distinct_def)
  ultimately show ?thesis
    using c inv_reply [of MESSAGES ?w1 net chat_id RESET_REPLY] by (simp add: reset_def Let_def)
qed

lemma inv_pause:
  assumes "stores_ok MESSAGES w" and "names_distinct w"
  shows "stores_ok MESSAGES (snd (pause net chat_id w))
     \<and> names_distinct (snd (pause net chat_id w))"
proof -
  let ?w1 = "w\<lparr>job_queue := cancel_existing_job (job_queue w) chat_id\<rparr>"
  from assms(1) have "stores_ok MESSAGES ?w1" by (simp add: stores_ok_def)
  moreover from assms(2) have "names_distinct ?w1" by (rule names_distinct_cancel)
  ultimately show ?thesis
    using inv_reply [of MESSAGES ?w1 net chat_id PAUSE_REPLY] by (simp add: pause_def)
qed

lemma inv_status:
  assumes "stores_ok MESSAGES w" and "names_distinct w"
  shows "stores_ok MESSAGES (snd (status MESSAGES net chat_id w))
     \<and> names_distinct (snd (status MESSAGES net chat_id w))"
proof -
  obtain d0 w0 where c: "context_chat_data chat_id w = (d0, w0)"
    by (cases "context_chat_data chat_id w")
  note m = map_of_context_chat_data [OF c]
  from stores_ok_lookup [OF assms(1), of chat_id] m
  have ok: "cursor_ok MESSAGES d0" by simp
  from m have upd: "map_of (chat_data w0) = (map_of (chat_data w))(chat_id \<mapsto> d0)"
    by simp
  from assms(1) ok upd have s0: "stores_ok MESSAGES w0" by (rule stores_ok_update)
  from assms(2) m have n0: "names_distinct w0" by (simp add: names_distinct_def)
  from s0 n0 c inv_reply [OF s0 n0] show ?thesis
    by (simp add: status_def Let_def split: pyval.splits)
qed

lemma inv_fire:
  assumes "stores_ok MESSAGES w" and "names_distinct w"
  shows "stores_ok MESSAGES (snd (send_message_job MESSAGES net j w))
     \<and> names_distinct (snd (send_message_job MESSAGES net j w))"
proof (cases "data_chat_id j")
  case None
  with assms show ?thesis by (simp add: send_message_job_def)
next
  case (Some cid)
  show ?thesis
  proof (cases cid)
    case (PStr s)
    with Some assms show ?thesis by (simp add: send_message_job_def)
  next
    case (PInt chat_id)
    show ?thesis
    proof (cases "map_of (chat_data w) chat_id")
      case None
      with Some PInt assms show ?thesis by (simp add: send_message_job_def)
    next
      case st: (Some chat_store)
      with assms(1) have ok: "cursor_ok MESSAGES chat_store" by (simp add: stores_ok_def)
      show ?thesis
      proof (cases "chat_store = []")
        case True
        with Some PInt st assms show ?thesis by (simp add: send_message_job_def)
      next
      case ne: False
      show ?thesis
      proof (cases "dict_get chat_store ''index'' (PInt 0)")
        case (PStr s)
        with Some PInt st ne assms show ?thesis by (simp add: send_message_job_def)
      next
        case ix: (PInt idx)
        with ok have pos: "0 \<le> idx" by (simp add: cursor_ok_def)
        show ?thesis
        proof (cases "int (length MESSAGES) \<le> idx")
          case True
          let ?w1 = "w\<lparr>job_queue := cancel_existing_job (job_queue w) chat_id\<rparr>"
          from assms(1) have "stores_ok MESSAGES ?w1" by (simp add: stores_ok_def)
          moreover from assms(2) have "names_distinct ?w1" by (rule names_distinct_cancel)
          ultimately have "stores_ok MESSAGES (snd (send_message net chat_id COMPLETION_NOTICE ?w1))
              \<and> names_distinct (snd (send_message net chat_id COMPLETION_NOTICE ?w1))"
            by (simp add: stores_ok_def names_distinct_def send_message_frame)
          with True Some PInt st ix ne assms show ?thesis
            by (simp add: send_message_job_def)
        next
          case False
          with pos have g: "getitem MESSAGES idx = Inr (MESSAGES ! nat idx)"
            by (simp add: getitem_nat)
          from pos False have adv:
            "cursor_ok MESSAGES (setitem chat_store ''index'' (PInt (idx + 1)))"
            by (simp add: cursor_ok_advance)
          show ?thesis
          proof (cases "net chat_id (MESSAGES ! nat idx)")
            case down: False
            with False Some PInt st ix ne g assms show ?thesis
              by (simp add: send_message_job_def send_message_def)
          next
            case True
            let ?w' = "w\<lparr>outbox := outbox w @ [(chat_id, MESSAGES ! nat idx)],
                chat_data := setitem (chat_data w) chat_id
                   (setitem chat_store ''index'' (PInt (idx + 1)))\<rparr>"
            from True False Some PInt st ix ne g
            have run: "send_message_job MESSAGES net j w = (None, ?w')"
              by (simp add: send_message_job_def send_message_def)
            have "map_of (chat_data ?w')
                = (map_of (chat_data w))(chat_id \<mapsto> setitem chat_store ''index'' (PInt (idx + 1)))"
              by (simp add: map_of_setitem)
            with assms(1) adv have "stores_ok MESSAGES ?w'" by (rule stores_ok_update)
            moreover from assms(2) have "names_distinct ?w'" by (simp add: names_distinct_def)
            ultimately show ?thesis by (simp add: run)
          qed
        qed
      qed
      qed
    qed
  qed
qed

lemma names_distinct_startup_loop:
  "names_distinct w \<Longrightarrow> names_distinct (snd (on_startup_loop tzdb items w))"
proof (induction items arbitrary: w)
  case Nil
  then show ?case by simp
next
  case (Cons x items)
  obtain c d where x: "x = (c, d)" by (cases x)
  from Cons.prems have n: "names_distinct (snd (schedule_daily_job tzdb c d w))"
    by (rule names_distinct_schedule)
  show ?case
  proof (cases "schedule_daily_job tzdb c d w")
    case (Pair e w1)
    with n have "names_distinct w1" by simp
    with Pair x Cons.IH [of w1] show ?thesis by (cases e) simp_all
  qed
qed

lemma inv_restart:
  assumes "stores_ok MESSAGES w" and "names_distinct w"
  shows "stores_ok MESSAGES (snd (restart tzdb w))
     \<and> names_distinct (snd (restart tzdb w))"
proof -
  have "chat_data (snd (restart tzdb w)) = chat_data w"
    by (simp add: restart_def on_startup_def on_startup_loop_frame fresh_process_def)
  with assms(1) have "stores_ok MESSAGES (snd (restart tzdb w))" by (simp add: stores_ok_def)
  moreover have "names_distinct (fresh_process w)"
    by (cases "job_queue w") (simp_all add: names_distinct_def fresh_process_def)
  then have "names_distinct (snd (restart tzdb w))"
    unfolding restart_def on_startup_def by (rule names_distinct_startup_loop)
  ultimately show ?thesis by simp
qed

lemma reachable_inv:
  "reachable MESSAGES tzdb py_int w \<Longrightarrow> stores_ok MESSAGES w \<and> names_distinct w"
proof (induction rule: reachable.induct)
  case (r_init with_queue)
  show ?case by (simp add: init_world_def stores_ok_def names_distinct_def)
next
  case (r_start w net chat_id)
  then show ?case using inv_start by blast
next
  case (r_settime w net chat_id args)
  then show ?case using inv_settime by blast
next
  case (r_settz w net chat_id args)
  then show ?case using inv_settz by blast
next
  case (r_status w net chat_id)
  then show ?case using inv_status by blast
next
  case (r_pause w net chat_id)
  then show ?case using inv_pause by blast
next
  case (r_resume w net chat_id)
  then show ?case using inv_resume by blast
next
  case (r_reset w net chat_id)
  then show ?case using inv_reset by blast
next
  case (r_fire w js j net)
  then show ?case using inv_fire by blast
next
  case (r_restart w)
  then show ?case using inv_restart by blast
qed

text \<open>
  Claim C3, as the code has it. In every reachable state, for every chat with a stored
  dictionary, the cursor is an integer \<open>i\<close> with \<open>0 \<le> i \<le> len(MESSAGES)\<close>, and every chat
  has at most one live job. Whether the job exists does not follow from the cursor:
  \<^verbatim>\<open>pause\<close> removes it at any cursor, and the job that delivers the last message stays
  armed until it fires once more.
\<close>

theorem reachable_cursor_bound:
  assumes "reachable MESSAGES tzdb py_int w"
  shows "(\<forall>c d. map_of (chat_data w) c = Some d \<longrightarrow>
            (\<exists>i. dict_get d ''index'' (PInt 0) = PInt i \<and> 0 \<le> i \<and> i \<le> int (length MESSAGES)))
     \<and> (\<forall>c. length (timers w c) \<le> 1)"
proof -
  from reachable_inv [OF assms] have s: "stores_ok MESSAGES w" and n: "names_distinct w"
    by simp_all
  have "\<exists>i. dict_get d ''index'' (PInt 0) = PInt i \<and> 0 \<le> i \<and> i \<le> int (length MESSAGES)"
    if "map_of (chat_data w) c = Some d" for c d
  proof -
    from s that have "cursor_ok MESSAGES d" by (simp add: stores_ok_def)
    then show ?thesis
      by (cases "dict_get d ''index'' (PInt 0)") (simp_all add: cursor_ok_def)
  qed
  then have "\<forall>c d. map_of (chat_data w) c = Some d \<longrightarrow>
            (\<exists>i. dict_get d ''index'' (PInt 0) = PInt i \<and> 0 \<le> i \<and> i \<le> int (length MESSAGES))"
    by blast
  moreover from n have "\<forall>c. length (timers w c) \<le> 1"
    using names_distinct_timers by blast
  ultimately show ?thesis by simp
qed

lemma ex_start: "snd (start [DEFAULT_TZ] net_up 7 (init_world True)) = started7"
proof -
  have c: "context_chat_data 7 (init_world True)
      = ([], \<lparr>chat_data = [(7, [])], job_queue = Some [], outbox = []\<rparr>)"
    by (simp add: context_chat_data_def init_world_def)
  have d: "setdefault (setdefault (setdefault (setdefault []
          ''tz'' (PStr DEFAULT_TZ)) ''hour'' (PInt DEFAULT_TIME_hour))
          ''minute'' (PInt DEFAULT_TIME_minute)) ''index'' (PInt 0) = store7 0"
    by (simp add: setdefault_def store7_def DEFAULT_TIME_hour_def DEFAULT_TIME_minute_def)
  have s: "schedule_daily_job [DEFAULT_TZ] 7 (store7 0)
        \<lparr>chat_data = [(7, store7 0)], job_queue = Some [], outbox = []\<rparr>
      = (None, \<lparr>chat_data = [(7, store7 0)], job_queue = Some [daily_job 7 time7], outbox = []\<rparr>)"
    by (simp add: schedule_daily_job_ok [OF _ ex_user_time])
  have tz: "map_of (store7 0) ''tz'' = Some (PStr DEFAULT_TZ)" by (simp add: store7_def)
  show ?thesis
    by (simp add: start_def c d setitem_def s ex_user_time tz reply_text_def send_message_def
        net_up_def started7_def greeting7_def time7_def py_str_def)
qed

lemma ex_pause: "snd (pause net_up 7 started7) = paused7"
  by (simp add: pause_def started7_def paused7_def cancel_existing_job_Some daily_job_def
      reply_text_def send_message_def net_up_def)

text \<open>
  Claim C3 as stated fails: after \<^verbatim>\<open>/start\<close> and \<^verbatim>\<open>/pause\<close> on a new deployment,
  subscriber 7 is registered at cursor 0 of a catalog of five and has no live job.
\<close>

theorem paused_has_no_timer:
  "reachable catalog5 [DEFAULT_TZ] no_int paused7
   \<and> map_of (chat_data paused7) 7 = Some (store7 0)
   \<and> cursor paused7 7 = Some (PInt 0)
   \<and> (0::int) < int (length catalog5)
   \<and> timers paused7 7 = []"
proof -
  have "reachable catalog5 [DEFAULT_TZ] no_int (init_world True)" by (rule r_init)
  then have "reachable catalog5 [DEFAULT_TZ] no_int
      (snd (start [DEFAULT_TZ] net_up 7 (init_world True)))"
    by (rule r_start)
  then have "reachable catalog5 [DEFAULT_TZ] no_int started7" by (simp only: ex_start)
  then have "reachable catalog5 [DEFAULT_TZ] no_int (snd (pause net_up 7 started7))"
    by (rule r_pause)
  then have "reachable catalog5 [DEFAULT_TZ] no_int paused7" by (simp only: ex_pause)
  then show ?thesis
    by (simp add: paused7_def cursor_def store7_def timers_def get_jobs_by_name_def
        catalog5_def)
qed

text \<open>The state after \<^verbatim>\<open>/start\<close> on a new deployment is reachable: cursor 0 and one
  job.\<close>

theorem reachable_cursor_bound_witness:
  "reachable catalog5 [DEFAULT_TZ] no_int started7
   \<and> map_of (chat_data started7) 7 = Some (store7 0)
   \<and> dict_get (store7 0) ''index'' (PInt 0) = PInt 0
   \<and> (0::int) \<le> int (length catalog5)
   \<and> length (timers started7 7) \<le> 1"
proof -
  have "reachable catalog5 [DEFAULT_TZ] no_int
      (snd (start [DEFAULT_TZ] net_up 7 (init_world True)))"
    by (rule r_start) (rule r_init)
  then have r: "reachable catalog5 [DEFAULT_TZ] no_int started7" by (simp only: ex_start)
  have m: "map_of (chat_data started7) 7 = Some (store7 0)" by (simp add: started7_def)
  have g: "dict_get (store7 0) ''index'' (PInt 0) = PInt 0"
    by (simp add: dict_get_def store7_def)
  from reachable_cursor_bound [OF r] have "length (timers started7 7) \<le> 1" by blast
  with r m g show ?thesis by simp
qed

end
